theory Spec2Isabelle
  imports Main "HOL-Library.AList"
begin

section \<open>Strings\<close>

text \<open>
  A JavaScript string is modelled as a \<^typ>\<open>string\<close> holding its UTF-8 bytes, and is taken to
  be well formed. The operations the plugin uses (concatenation, \<^verbatim>\<open>split("\n")\<close>,
  \<^verbatim>\<open>includes\<close>, replacing ASCII characters, matching ASCII patterns) act on the bytes as
  they act on the JavaScript code units. White space (\<^verbatim>\<open>trim\<close>, \<^verbatim>\<open>\s\<close>) and the line
  terminators (which \<^verbatim>\<open>.\<close> does not match) are the characters ECMAScript lists, each given
  by its bytes.
\<close>

definition nl :: char where
  "nl = CHR 0x0A"

definition quote :: char where
  "quote = CHR 0x22"

definition emdash :: string where
  "emdash = [CHR 0xE2, CHR 0x80, CHR 0x94]"

definition rarrow :: string where
  "rarrow = [CHR 0xE2, CHR 0x86, CHR 0x92]"

definition is_digit :: "char \<Rightarrow> bool" where
  "is_digit c = (c \<in> set ''0123456789'')"

text \<open>\<^verbatim>\<open>s.startsWith(p)\<close>, and \<^verbatim>\<open>s.includes(p)\<close>: \<open>p\<close> occurs somewhere in \<open>s\<close>.\<close>

definition startsWith :: "string \<Rightarrow> string \<Rightarrow> bool" where
  "startsWith s p = (take (length p) s = p)"

fun str_includes :: "string \<Rightarrow> string \<Rightarrow> bool" where
  "str_includes [] p = (p = [])"
| "str_includes (c # cs) p = (startsWith (c # cs) p \<or> str_includes cs p)"

text \<open>
  \<^verbatim>\<open>WhiteSpace\<close> and \<^verbatim>\<open>LineTerminator\<close> of ECMAScript, which \<^verbatim>\<open>trim\<close> strips and \<^verbatim>\<open>\s\<close>
  matches: U+0009 to U+000D, U+0020, U+00A0, U+1680, U+2000 to U+200A, U+2028, U+2029,
  U+202F, U+205F, U+3000 and U+FEFF. No one is a prefix or a suffix of another.
\<close>

definition white_space :: "string list" where
  "white_space =
     [[CHR 0x09], [CHR 0x0A], [CHR 0x0B], [CHR 0x0C], [CHR 0x0D], [CHR 0x20],
      [CHR 0xC2, CHR 0xA0],
      [CHR 0xE1, CHR 0x9A, CHR 0x80],
      [CHR 0xE2, CHR 0x80, CHR 0x80], [CHR 0xE2, CHR 0x80, CHR 0x81],
      [CHR 0xE2, CHR 0x80, CHR 0x82], [CHR 0xE2, CHR 0x80, CHR 0x83],
      [CHR 0xE2, CHR 0x80, CHR 0x84], [CHR 0xE2, CHR 0x80, CHR 0x85],
      [CHR 0xE2, CHR 0x80, CHR 0x86], [CHR 0xE2, CHR 0x80, CHR 0x87],
      [CHR 0xE2, CHR 0x80, CHR 0x88], [CHR 0xE2, CHR 0x80, CHR 0x89],
      [CHR 0xE2, CHR 0x80, CHR 0x8A],
      [CHR 0xE2, CHR 0x80, CHR 0xA8], [CHR 0xE2, CHR 0x80, CHR 0xA9],
      [CHR 0xE2, CHR 0x80, CHR 0xAF],
      [CHR 0xE2, CHR 0x81, CHR 0x9F],
      [CHR 0xE3, CHR 0x80, CHR 0x80],
      [CHR 0xEF, CHR 0xBB, CHR 0xBF]]"

text \<open>The characters that \<^verbatim>\<open>.\<close> of a regular expression does not match: U+000A, U+000D,
  U+2028 and U+2029.\<close>

definition line_terminators :: "string list" where
  "line_terminators =
     [[CHR 0x0A], [CHR 0x0D], [CHR 0xE2, CHR 0x80, CHR 0xA8], [CHR 0xE2, CHR 0x80, CHR 0xA9]]"

text \<open>The number of bytes of the character of \<open>cs\<close> that \<open>s\<close> starts with, 0 when it starts
  with none of them.\<close>

definition prefix_len :: "string list \<Rightarrow> string \<Rightarrow> nat" where
  "prefix_len cs s = (case find (startsWith s) cs of Some c \<Rightarrow> length c | None \<Rightarrow> 0)"

text \<open>\<open>s\<close> without the characters of \<open>cs\<close> it starts with, and without those it ends with.\<close>

function strip :: "string list \<Rightarrow> string \<Rightarrow> string" where
  "strip cs s = (if prefix_len cs s = 0 then s else strip cs (drop (prefix_len cs s) s))"
  by pat_completeness auto
termination
proof (relation "measure (\<lambda>(cs, s). length s)")
  fix cs :: "string list" and s :: string
  assume a: "prefix_len cs s \<noteq> 0"
  have "prefix_len cs [] = 0"
    by (induction cs) (auto simp: prefix_len_def startsWith_def split: option.splits)
  with a have "s \<noteq> []" by auto
  with a show "((cs, drop (prefix_len cs s) s), (cs, s)) \<in> measure (\<lambda>(cs, s). length s)"
    by simp
qed simp

declare strip.simps [simp del]

definition strip_end :: "string list \<Rightarrow> string \<Rightarrow> string" where
  "strip_end cs s = rev (strip (map rev cs) (rev s))"

definition trimStart :: "string \<Rightarrow> string" where
  "trimStart s = strip white_space s"

definition trimEnd :: "string \<Rightarrow> string" where
  "trimEnd s = strip_end white_space s"

definition trim :: "string \<Rightarrow> string" where
  "trim s = trimEnd (trimStart s)"

text \<open>\<open>s\<close> from its first line terminator on: what a greedy \<^verbatim>\<open>.+\<close> leaves.\<close>

fun from_line_term :: "string \<Rightarrow> string" where
  "from_line_term [] = []"
| "from_line_term (c # cs) =
     (if prefix_len line_terminators (c # cs) \<noteq> 0 then c # cs else from_line_term cs)"

text \<open>\<^verbatim>\<open>s.split("\n")\<close> and \<^verbatim>\<open>lines.join("\n")\<close>.\<close>

fun split_nl :: "string \<Rightarrow> string list" where
  "split_nl [] = [[]]"
| "split_nl (c # cs) =
     (if c = nl then [] # split_nl cs
      else (case split_nl cs of [] \<Rightarrow> [[c]] | l # ls \<Rightarrow> (c # l) # ls))"

fun join_nl :: "string list \<Rightarrow> string" where
  "join_nl [] = []"
| "join_nl [l] = l"
| "join_nl (l # ls) = l @ nl # join_nl ls"

text \<open>\<^verbatim>\<open>String(n)\<close> for a natural number and for an integer that a \<^verbatim>\<open>Number\<close> holds
  exactly and prints in full (below \<open>2\<^sup>5\<^sup>3\<close>), and the value of a string of decimal
  digits.\<close>

definition digit_char :: "nat \<Rightarrow> char" where
  "digit_char d = ''0123456789'' ! (d mod 10)"

fun string_of_nat :: "nat \<Rightarrow> string" where
  "string_of_nat n =
     (if n < 10 then [digit_char n] else string_of_nat (n div 10) @ [digit_char (n mod 10)])"

declare string_of_nat.simps [simp del]

function digits_of_int :: "int \<Rightarrow> string" where
  "digits_of_int i =
     (if i < 10 then [digit_char (nat i)]
      else digits_of_int (i div 10) @ [digit_char (nat (i mod 10))])"
  by pat_completeness auto
termination
  by (relation "measure nat") auto

declare digits_of_int.simps [simp del]

definition string_of_int :: "int \<Rightarrow> string" where
  "string_of_int i = (if i < 0 then CHR ''-'' # digits_of_int (- i) else digits_of_int i)"

definition digit_val :: "char \<Rightarrow> nat" where
  "digit_val c = length (takeWhile (\<lambda>d. d \<noteq> c) ''0123456789'')"

definition int_of_digits :: "string \<Rightarrow> int" where
  "int_of_digits ds = foldl (\<lambda>a c. 10 * a + int (digit_val c)) 0 ds"

subsection \<open>Numbers\<close>

text \<open>
  A \<^verbatim>\<open>Number\<close> that is a non-negative integer or \<^verbatim>\<open>Infinity\<close>: the values a play count can
  take. A \<^verbatim>\<open>Number\<close> is a binary64 float, which holds every integer below \<open>2\<^sup>5\<^sup>3\<close> and, above,
  the multiples of a power of two with a quotient below \<open>2\<^sup>5\<^sup>3\<close>. \<open>ulp n 1\<close> is that power of
  two for the integers around \<open>n\<close>.
\<close>

datatype number = Finite int | Infinity

definition two53 :: int where
  "two53 = 9007199254740992"

function ulp :: "int \<Rightarrow> int \<Rightarrow> int" where
  "ulp n q = (if q \<le> 0 \<or> n div q < two53 then q else ulp n (q * 2))"
  by pat_completeness auto
termination
proof (relation "measure (\<lambda>(n, q). nat (n div q))")
  fix n q :: int
  assume a: "\<not> (q \<le> 0 \<or> n div q < two53)"
  then have "0 < n div q" by (simp add: two53_def)
  moreover have "n div (q * 2) = n div q div 2"
    using a by (simp add: zdiv_zmult2_eq)
  ultimately show "((n, q * 2), (n, q)) \<in> measure (\<lambda>(n, q). nat (n div q))"
    by simp
qed simp

declare ulp.simps [simp del]

text \<open>The \<^verbatim>\<open>Number\<close> nearest to the integer \<open>n \<ge> 0\<close>, the one with the even quotient when two are
  as near, \<^verbatim>\<open>Infinity\<close> from \<open>2\<^sup>1\<^sup>0\<^sup>2\<^sup>4\<close> on: what \<^verbatim>\<open>Number(ds)\<close> and \<^verbatim>\<open>a + b\<close> give for the exact
  value \<open>n\<close>.\<close>

definition number_of_int :: "int \<Rightarrow> number" where
  "number_of_int n =
     (if n < two53 then Finite n
      else (let q = ulp n 1; m = n div q; r = n mod q;
                v = (if 2 * r < q \<or> (2 * r = q \<and> even m) then m * q else (m + 1) * q)
            in if v < 2 ^ 1024 then Finite v else Infinity))"

definition js_Number :: "string \<Rightarrow> number" where
  "js_Number ds = number_of_int (int_of_digits ds)"

definition number_add :: "number \<Rightarrow> nat \<Rightarrow> number" where
  "number_add x k = (case x of Finite v \<Rightarrow> number_of_int (v + int k) | Infinity \<Rightarrow> Infinity)"

text \<open>
  \<^verbatim>\<open>String(x)\<close> prints the fewest digits \<open>s\<close> (there are \<open>k\<close> of them) such that \<open>s\<close> followed
  by \<open>n - k\<close> zeros is a number that reads back as \<open>x\<close>, and of several such \<open>s\<close> the one
  nearest to \<open>x\<close>. \<open>candidates x k\<close> are the pairs \<open>(s, n)\<close> for a given \<open>k\<close>: \<open>n\<close> is the number
  of digits of \<open>x\<close> or one more, \<open>s\<close> is \<open>x\<close> cut to \<open>k\<close> digits or the next integer.
\<close>

definition candidates :: "int \<Rightarrow> nat \<Rightarrow> (int \<times> nat) list" where
  "candidates x k =
     (let d = length (digits_of_int x)
      in concat (map (\<lambda>n. if n < k then []
                              else filter (\<lambda>(s, n). 10 ^ (k - 1) \<le> s \<and> s < 10 ^ k
                                              \<and> number_of_int (s * 10 ^ (n - k)) = Finite x)
                                     [(x div 10 ^ (n - k), n), (x div 10 ^ (n - k) + 1, n)])
                     [d, d + 1]))"

definition distance :: "int \<Rightarrow> nat \<Rightarrow> int \<times> nat \<Rightarrow> int" where
  "distance x k c = \<bar>fst c * 10 ^ (snd c - k) - x\<bar>"

fun closest :: "int \<Rightarrow> nat \<Rightarrow> (int \<times> nat) list \<Rightarrow> (int \<times> nat) option" where
  "closest x k [] = None"
| "closest x k (c # cs) =
     (case closest x k cs of
        None \<Rightarrow> Some c
      | Some b \<Rightarrow>
          if distance x k c < distance x k b \<or> (distance x k c = distance x k b \<and> even (fst c))
          then Some c else Some b)"

text \<open>Seventeen digits tell any two \<^verbatim>\<open>Number\<close>s apart, so the search stops there.\<close>

definition shortest :: "int \<Rightarrow> (int \<times> nat \<times> nat) option" where
  "shortest x =
     (case find (\<lambda>k. candidates x k \<noteq> []) [1..<18] of
        None \<Rightarrow> None
      | Some k \<Rightarrow> (case closest x k (candidates x k) of
                    None \<Rightarrow> None
                  | Some (s, n) \<Rightarrow> Some (s, n, k)))"

text \<open>\<^verbatim>\<open>String(x)\<close>: the digits in full up to 21 of them, the exponent form beyond.\<close>

definition string_of_number :: "number \<Rightarrow> string" where
  "string_of_number x =
     (case x of
        Infinity \<Rightarrow> ''Infinity''
      | Finite v \<Rightarrow>
          if v < two53 then string_of_int v
          else (case shortest v of
                  None \<Rightarrow> string_of_int v
                | Some (s, n, k) \<Rightarrow>
                    (let ds = digits_of_int s
                     in if n \<le> 21 then ds @ replicate (n - k) (CHR ''0'')
                        else if k = 1 then ds @ ''e+'' @ string_of_nat (n - 1)
                        else take 1 ds @ ''.'' @ drop 1 ds @ ''e+'' @ string_of_nat (n - 1))))"

text \<open>\<^verbatim>\<open>s.replace(/pat/g, rep)\<close> for a literal, non-empty pattern.\<close>

fun replaceAll :: "string \<Rightarrow> string \<Rightarrow> string \<Rightarrow> string" where
  "replaceAll p r [] = []"
| "replaceAll p r (c # cs) =
     (if p \<noteq> [] \<and> startsWith (c # cs) p then r @ replaceAll p r (drop (length p) (c # cs))
      else c # replaceAll p r cs)"

section \<open>The data model\<close>

text \<open>
  \<^verbatim>\<open>interface LastFmTrack\<close>. The fields are prefixed with \<open>t_\<close>, since \<open>TrackGroup\<close> has
  fields of the same names. \<open>t_artist\<close> is \<^verbatim>\<open>artist["#text"]\<close>, \<open>t_album\<close> is
  \<^verbatim>\<open>album?.["#text"]\<close>, an image is the pair of its \<^verbatim>\<open>"#text"\<close> and its \<^verbatim>\<open>size\<close>.
  \<open>t_uts\<close> is \<^verbatim>\<open>date?.uts\<close> as the plugin reads it: \<open>Some n\<close> is a non-empty string of
  digits that \<^verbatim>\<open>Number\<close> reads as \<open>n\<close>, \<open>None\<close> is a track without a date (or with an
  empty \<^verbatim>\<open>uts\<close>, which is as falsy as a missing one).
\<close>

record LastFmTrack =
  t_name :: string
  t_artist :: string
  t_album :: "string option"
  t_uts :: "int option"
  t_image :: "(string \<times> string) list option"

record TrackGroup =
  count :: nat
  latestIso :: string
  latestTs :: int
  firstIso :: string
  firstTs :: int
  album :: string
  coverUrl :: string
  artist :: string
  name :: string
  fileName :: string

text \<open>An element of \<^verbatim>\<open>historyPlays\<close>: \<^verbatim>\<open>{ fileName, dateIso, ts }\<close>.\<close>

record HistoryPlay =
  hp_fileName :: string
  dateIso :: string
  ts :: int

record LastFmSettings =
  apiKey :: string
  username :: string
  folder :: string
  historyFolderPath :: string
  autoSyncEnabled :: bool

section \<open>The host: clock, time zone and path normalisation\<close>

text \<open>
  What the plugin takes from its JavaScript host and from Obsidian is a parameter of the
  model: \<^verbatim>\<open>normalizePath\<close>, the local-time fields of a \<^verbatim>\<open>Date\<close> given in milliseconds
  since the epoch, \<^verbatim>\<open>new Date(iso).getTime()\<close> (\<open>None\<close> is \<^verbatim>\<open>NaN\<close>) and \<^verbatim>\<open>Date.now()\<close>,
  which is taken as constant during one run.
\<close>

record host =
  normalizePath :: "string \<Rightarrow> string"
  getFullYear :: "int \<Rightarrow> int"
  getMonth :: "int \<Rightarrow> int"
  getDate :: "int \<Rightarrow> int"
  getHours :: "int \<Rightarrow> int"
  getMinutes :: "int \<Rightarrow> int"
  getSeconds :: "int \<Rightarrow> int"
  dateParse :: "string \<Rightarrow> int option"
  nowMs :: int

text \<open>\<^verbatim>\<open>String(n).padStart(2, "0")\<close>\<close>

definition pad :: "int \<Rightarrow> string" where
  "pad n = (let s = string_of_int n in replicate (2 - length s) (CHR ''0'') @ s)"

definition timestampToLocalISO :: "host \<Rightarrow> int \<Rightarrow> string" where
  "timestampToLocalISO h t =
     (let d = t * 1000 in
      string_of_int (getFullYear h d) @ ''-'' @ pad (getMonth h d + 1) @ ''-'' @ pad (getDate h d)
        @ ''T'' @ pad (getHours h d) @ '':'' @ pad (getMinutes h d) @ '':'' @ pad (getSeconds h d))"

text \<open>\<open>None\<close> is \<^verbatim>\<open>null\<close>; \<^verbatim>\<open>Math.floor\<close> of an integer quotient is \<open>div\<close>.\<close>

definition localISOToTimestamp :: "host \<Rightarrow> string \<Rightarrow> int option" where
  "localISOToTimestamp h isoStr =
     (case dateParse h isoStr of None \<Rightarrow> None | Some ms \<Rightarrow> Some (ms div 1000))"

text \<open>\<^verbatim>\<open>new Date().getFullYear()\<close>\<close>

definition currentYear :: "host \<Rightarrow> int" where
  "currentYear h = getFullYear h (nowMs h)"

section \<open>The pure helpers of the plugin\<close>

text \<open>\<^verbatim>\<open>str.replace(/[*"\\/<>|:?]/g, "-").trim()\<close>\<close>

definition illegal :: "char \<Rightarrow> bool" where
  "illegal c = (c \<in> set [CHR ''*'', CHR 0x22, CHR 0x5C, CHR ''/'', CHR ''<'', CHR ''>'',
                           CHR ''|'', CHR '':'', CHR ''?''])"

definition sanitizeFileName :: "string \<Rightarrow> string" where
  "sanitizeFileName str = trim (map (\<lambda>c. if illegal c then CHR ''-'' else c) str)"

text \<open>\<^verbatim>\<open>x?.trim() || dflt\<close>: the trimmed string, or the default when that is empty.\<close>

definition trim_or :: "string \<Rightarrow> string \<Rightarrow> string" where
  "trim_or x dflt = (if trim x = [] then dflt else trim x)"

text \<open>\<^verbatim>\<open>images.find(i => i.size === sz)\<close>\<close>

definition find_size :: "string \<Rightarrow> (string \<times> string) list \<Rightarrow> (string \<times> string) option" where
  "find_size sz images = find (\<lambda>i. snd i = sz) images"

definition extractBestCover :: "(string \<times> string) list option \<Rightarrow> string" where
  "extractBestCover images =
     (case images of
        None \<Rightarrow> []
      | Some [] \<Rightarrow> []
      | Some (i0 # imgs) \<Rightarrow>
          (let img = (case find_size ''extralarge'' (i0 # imgs) of
                        Some i \<Rightarrow> i
                      | None \<Rightarrow> (case find_size ''large'' (i0 # imgs) of Some i \<Rightarrow> i | None \<Rightarrow> i0))
           in trim_or (fst img) []))"

text \<open>\<^verbatim>\<open>encodeURIComponent\<close> on UTF-8 bytes: the unreserved characters stay, every other
  byte becomes \<^verbatim>\<open>%XX\<close>.\<close>

definition unreserved :: "char \<Rightarrow> bool" where
  "unreserved c =
     (c \<in> set ''ABCDEFGHIJKLMNOPQRSTUVWXYZabcdefghijklmnopqrstuvwxyz0123456789-_.!~*()''
      \<or> c = CHR 0x27)"

definition hex_digit :: "nat \<Rightarrow> char" where
  "hex_digit n = ''0123456789ABCDEF'' ! (n mod 16)"

definition encodeURIComponent :: "string \<Rightarrow> string" where
  "encodeURIComponent s =
     concat (map (\<lambda>c. if unreserved c then [c]
                       else [CHR ''%'', hex_digit (of_char c div 16), hex_digit (of_char c mod 16)]) s)"

definition buildLastFmUrl :: "string \<Rightarrow> string \<Rightarrow> string" where
  "buildLastFmUrl a_artist a_track =
     (let a = replaceAll ''%20'' ''+'' (encodeURIComponent a_artist);
          t = replaceAll ''%20'' ''+'' (encodeURIComponent a_track)
      in ''https://www.last.fm/music/'' @ a @ ''/_/'' @ t)"

definition buildNewTrackContent :: "TrackGroup \<Rightarrow> string \<Rightarrow> string" where
  "buildNewTrackContent g url =
     ''---'' @ [nl] @
     ''track: '' @ name g @ [nl] @
     ''artist: '' @ artist g @ [nl] @
     ''album: '' @ (if album g = [] then emdash else album g) @ [nl] @
     ''tags: [song]'' @ [nl] @
     ''lastfm_url: '' @ url @ [nl] @
     ''play_count: '' @ [quote] @ string_of_nat (count g) @ [quote] @ [nl] @
     ''first_listened_at: '' @ firstIso g @ [nl] @
     ''last_listened_at: '' @ latestIso g @ [nl] @
     ''cover_url: '' @ coverUrl g @ [nl] @
     ''---'' @ [nl] @
     ''![]('' @ coverUrl g @ '')'' @ [nl] @
     ''[Last.fm '' @ rarrow @ '' '' @ name g @ '']('' @ url @ '')'' @ [nl] @
     [nl]"

subsection \<open>\<open>updateTrackContent\<close>\<close>

text \<open>
  \<^verbatim>\<open>/play_count:\s*"?(\d+)"?/\<close> tried at the start of \<open>s\<close>: the digits of the group and
  what follows the match. No backtracking can help this pattern: a character given back
  by \<^verbatim>\<open>\s*\<close> is neither a quote nor a digit.
\<close>

definition opt_quote :: "string \<Rightarrow> string" where
  "opt_quote s = (case s of [] \<Rightarrow> [] | c # cs \<Rightarrow> if c = quote then cs else c # cs)"

definition playCountAt :: "string \<Rightarrow> (string \<times> string) option" where
  "playCountAt s =
     (if startsWith s ''play_count:'' then
        (let r = opt_quote (trimStart (drop 11 s));
             ds = takeWhile is_digit r
         in if ds = [] then None else Some (ds, opt_quote (dropWhile is_digit r)))
      else None)"

text \<open>The leftmost match in the content: what precedes it, the digits, what follows it.\<close>

fun matchPlayCount :: "string \<Rightarrow> (string \<times> string \<times> string) option" where
  "matchPlayCount [] = None"
| "matchPlayCount (c # cs) =
     (case playCountAt (c # cs) of
        Some (ds, rest) \<Rightarrow> Some ([], ds, rest)
      | None \<Rightarrow>
          (case matchPlayCount cs of
             None \<Rightarrow> None
           | Some (pre, ds, rest) \<Rightarrow> Some (c # pre, ds, rest)))"

text \<open>
  \<^verbatim>\<open>/last_listened_at:\s*.+/\<close> tried at the start of \<open>s\<close>: what follows the match. \<^verbatim>\<open>\s*\<close>
  takes all the white space, line ends too, and \<^verbatim>\<open>.+\<close> runs to the end of the line that
  follows. When only white space follows the colon, \<^verbatim>\<open>\s*\<close> gives characters back until
  \<^verbatim>\<open>.+\<close> finds one that is no line terminator: the match ends after the last such
  character, and there is no match when there is none.
\<close>

definition lastListenedAt :: "string \<Rightarrow> string option" where
  "lastListenedAt s =
     (if startsWith s ''last_listened_at:'' then
        (let r = drop 17 s; r1 = trimStart r
         in if r1 \<noteq> [] then Some (from_line_term r1)
            else (let matched = strip_end line_terminators r
                  in if matched \<noteq> [] then Some (drop (length matched) r) else None))
      else None)"

fun matchLastListened :: "string \<Rightarrow> (string \<times> string) option" where
  "matchLastListened [] = None"
| "matchLastListened (c # cs) =
     (case lastListenedAt (c # cs) of
        Some rest \<Rightarrow> Some ([], rest)
      | None \<Rightarrow>
          (case matchLastListened cs of
             None \<Rightarrow> None
           | Some (pre, rest) \<Rightarrow> Some (c # pre, rest)))"

text \<open>
  The replacement strings hold no \<^verbatim>\<open>$\<close>: the count is a number and \<open>latestIso\<close> comes from
  \<open>timestampToLocalISO\<close>. A \<^verbatim>\<open>replace\<close> whose pattern does not match returns the content as
  it is.
\<close>

definition updateTrackContent :: "string \<Rightarrow> nat \<Rightarrow> string \<Rightarrow> string" where
  "updateTrackContent content newPlays a_latestIso =
     (let countMatch = matchPlayCount content;
          cnt = (case countMatch of
                   Some (pre, ds, rest) \<Rightarrow> number_add (js_Number ds) newPlays
                 | None \<Rightarrow> Finite (int newPlays));
          content1 = (case countMatch of
                        Some (pre, ds, rest) \<Rightarrow>
                          pre @ ''play_count: '' @ [quote] @ string_of_number cnt @ [quote] @ rest
                      | None \<Rightarrow> content);
          content2 = (case matchLastListened content1 of
                        Some (pre, rest) \<Rightarrow> pre @ ''last_listened_at: '' @ a_latestIso @ rest
                      | None \<Rightarrow> content1)
      in content2)"

section \<open>The vault and the plugin state\<close>

text \<open>
  The vault maps a path to what \<^verbatim>\<open>getAbstractFileByPath\<close> finds there. \<^verbatim>\<open>createFolder\<close>
  rejects when the path is taken, and the plugin swallows that with \<^verbatim>\<open>.catch(() => {})\<close>.
  \<^verbatim>\<open>create\<close> rejects when the path is taken and \<^verbatim>\<open>modify\<close> needs a file: a rejection there
  is not caught, the run ends in it (\<open>None\<close>). The model does not follow which folder
  holds which file.
\<close>

datatype node = TFile string | TFolder

type_synonym vault_state = "string \<Rightarrow> node option"

definition createFolder :: "vault_state \<Rightarrow> string \<Rightarrow> vault_state" where
  "createFolder v path = (if v path = None then v(path \<mapsto> TFolder) else v)"

definition vault_create :: "vault_state \<Rightarrow> string \<Rightarrow> string \<Rightarrow> vault_state option" where
  "vault_create v path content = (if v path = None then Some (v(path \<mapsto> TFile content)) else None)"

definition vault_modify :: "vault_state \<Rightarrow> string \<Rightarrow> string \<Rightarrow> vault_state option" where
  "vault_modify v path content =
     (case v path of Some (TFile old) \<Rightarrow> Some (v(path \<mapsto> TFile content)) | _ \<Rightarrow> None)"

text \<open>The files of a vault with their contents: what a run may not touch before it
  writes.\<close>

definition files_of :: "vault_state \<Rightarrow> string \<Rightarrow> string option" where
  "files_of v path = (case v path of Some (TFile content) \<Rightarrow> Some content | _ \<Rightarrow> None)"

text \<open>What a run does to the outside, in order: a request for a page (with the \<^verbatim>\<open>from\<close>
  parameter when there is one) and a wait of so many milliseconds.\<close>

datatype effect = Request nat "int option" | Sleep nat

text \<open>\<open>saved\<close> is what \<^verbatim>\<open>saveData\<close> last persisted, \<open>None\<close> before the first call.\<close>

record plugin =
  settings :: LastFmSettings
  vault :: vault_state
  saved :: "LastFmSettings option"
  journal :: "effect list"

definition saveSettings :: "plugin \<Rightarrow> plugin" where
  "saveSettings p = p\<lparr>saved := Some (settings p)\<rparr>"

section \<open>The resume point\<close>

text \<open>A string fits a template when it starts with it, \<^verbatim>\<open>d\<close> in the template standing
  for a digit: \<^verbatim>\<open>/^- (\d{4}-\d{2}-\d{2}T\d{2}:\d{2}:\d{2})/\<close> is the template below.\<close>

fun fits :: "string \<Rightarrow> string \<Rightarrow> bool" where
  "fits [] s = True"
| "fits (p # ps) [] = False"
| "fits (p # ps) (c # cs) = ((if p = CHR ''d'' then is_digit c else c = p) \<and> fits ps cs)"

definition matchEntry :: "string \<Rightarrow> string option" where
  "matchEntry line =
     (if fits ''- dddd-dd-ddTdd:dd:dd'' line then Some (take 19 (drop 2 line)) else None)"

text \<open>The first line of a file that matches and whose timestamp is truthy (neither
  \<^verbatim>\<open>null\<close> nor 0).\<close>

fun scanLines :: "host \<Rightarrow> string list \<Rightarrow> int option" where
  "scanLines h [] = None"
| "scanLines h (line # lines) =
     (case matchEntry line of
        None \<Rightarrow> scanLines h lines
      | Some m \<Rightarrow>
          (case localISOToTimestamp h m of
             None \<Rightarrow> scanLines h lines
           | Some t \<Rightarrow> if t \<noteq> 0 then Some t else scanLines h lines))"

definition historyPath :: "host \<Rightarrow> string \<Rightarrow> string \<Rightarrow> string" where
  "historyPath h historyFolder year =
     normalizePath h (historyFolder @ ''/'' @ ''History-'' @ year @ ''.md'')"

fun scanYears :: "host \<Rightarrow> vault_state \<Rightarrow> string \<Rightarrow> int list \<Rightarrow> int option" where
  "scanYears h v historyFolder [] = None"
| "scanYears h v historyFolder (year # years) =
     (case v (historyPath h historyFolder (string_of_int year)) of
        Some (TFile content) \<Rightarrow>
          (case scanLines h (split_nl content) of
             Some t \<Rightarrow> Some t
           | None \<Rightarrow> scanYears h v historyFolder years)
      | _ \<Rightarrow> scanYears h v historyFolder years)"

text \<open>\<^verbatim>\<open>for (let year = currentYear; year >= currentYear - 20; year--)\<close>. The result is
  \<open>Some lastFetchedTimestamp\<close> when \<^verbatim>\<open>found\<close>, else \<open>None\<close>.\<close>

definition lookbackYears :: "host \<Rightarrow> int list" where
  "lookbackYears h = map (\<lambda>k. currentYear h - int k) [0..<21]"

definition resolveWatermark :: "host \<Rightarrow> vault_state \<Rightarrow> string \<Rightarrow> int option" where
  "resolveWatermark h v historyFolder = scanYears h v historyFolder (lookbackYears h)"

section \<open>The paginated fetch\<close>

text \<open>
  \<^verbatim>\<open>resp.json\<close>: \<open>api_error\<close> is \<^verbatim>\<open>data.error\<close>, \<open>totalPagesAttr\<close> is
  \<^verbatim>\<open>recenttracks?.["@attr"]?.totalPages\<close> read by \<^verbatim>\<open>Number\<close> (\<open>None\<close> when missing or empty),
  \<open>track\<close> is \<^verbatim>\<open>recenttracks?.track ?? []\<close>, a single track taken as a list of one.
  \<^verbatim>\<open>requestUrl\<close> either answers or rejects, with or without a status. The remote is asked
  with the number of requests this run has made before, the page and the \<^verbatim>\<open>from\<close>
  parameter, so that a retry of a page may be answered differently.
\<close>

record api_data =
  api_error :: "int option"
  totalPagesAttr :: "int option"
  track :: "LastFmTrack list"

datatype response = Json api_data | Rejects "int option"

type_synonym remote = "nat \<Rightarrow> nat \<Rightarrow> int option \<Rightarrow> response"

datatype fetched = Aborted "int option" | Fetched "LastFmTrack list"

definition maxAttempts :: nat where
  "maxAttempts = 3"

definition transient :: "int option \<Rightarrow> bool" where
  "transient st = (st = Some 500 \<or> st = Some 429)"

definition backoff :: "int option \<Rightarrow> nat" where
  "backoff st = (if st = Some 429 then 30000 else 5000)"

function fetchLoop ::
  "remote \<Rightarrow> int option \<Rightarrow> nat \<Rightarrow> int \<Rightarrow> nat \<Rightarrow> LastFmTrack list \<Rightarrow> nat \<Rightarrow> effect list
     \<Rightarrow> fetched \<times> effect list" where
  "fetchLoop rm frm page totalPages attempts allNewTracks n jr =
     (if int page \<le> totalPages \<and> attempts < maxAttempts then
        (case rm n page frm of
           Rejects st \<Rightarrow>
             if transient st \<and> attempts < maxAttempts - 1 then
               fetchLoop rm frm page totalPages (attempts + 1) allNewTracks (n + 1)
                 (jr @ [Request page frm, Sleep (backoff st)])
             else (Aborted st, jr @ [Request page frm])
         | Json data \<Rightarrow>
             if api_error data \<noteq> None \<and> api_error data \<noteq> Some 0 then
               (Aborted None, jr @ [Request page frm])
             else
               (let totalPages' =
                      (if page = 1 \<and> totalPagesAttr data \<noteq> None then
                         (if frm \<noteq> None then the (totalPagesAttr data) else 1)
                       else totalPages)
                in if track data = [] then (Fetched allNewTracks, jr @ [Request page frm])
                   else fetchLoop rm frm (page + 1) totalPages' attempts
                          (allNewTracks @ track data) (n + 1)
                          (jr @ [Request page frm] @
                             (if int (page + 1) \<le> totalPages' then [Sleep 2000] else []))))
      else (Fetched allNewTracks, jr))"
  by pat_completeness auto
termination
  by (relation "measures [\<lambda>(rm, frm, page, totalPages, attempts, acc, n, jr). 2 - page,
                          \<lambda>(rm, frm, page, totalPages, attempts, acc, n, jr). nat (totalPages + 1 - int page),
                          \<lambda>(rm, frm, page, totalPages, attempts, acc, n, jr). maxAttempts - attempts]")
     (auto simp: maxAttempts_def)

text \<open>\<open>frm\<close> is \<open>Some fromTimestamp\<close> when \<^verbatim>\<open>found\<close>.\<close>

declare fetchLoop.simps [simp del]

definition fetchAll :: "remote \<Rightarrow> int option \<Rightarrow> fetched \<times> effect list" where
  "fetchAll rm frm = fetchLoop rm frm 1 1 0 [] 0 []"

text \<open>The waits of the failure policy, as opposed to the wait between two pages; and a
  response without an in-band error (\<^verbatim>\<open>data.error\<close> is missing or 0).\<close>

definition is_backoff :: "effect \<Rightarrow> bool" where
  "is_backoff e = (e = Sleep (backoff (Some 429)) \<or> e = Sleep (backoff (Some 500)))"

definition no_api_error :: "api_data \<Rightarrow> bool" where
  "no_api_error d = (api_error d = None \<or> api_error d = Some 0)"

section \<open>The aggregator\<close>

text \<open>The timestamp the filter compares with the watermark, and the one the grouping
  loop works with: they differ on a track without a date.\<close>

definition filter_ts :: "LastFmTrack \<Rightarrow> int" where
  "filter_ts t = (case t_uts t of Some n \<Rightarrow> n | None \<Rightarrow> 0)"

definition event_ts :: "host \<Rightarrow> LastFmTrack \<Rightarrow> int" where
  "event_ts h t = (case t_uts t of Some n \<Rightarrow> n | None \<Rightarrow> nowMs h div 1000)"

definition trulyNewTracks :: "int \<Rightarrow> LastFmTrack list \<Rightarrow> LastFmTrack list" where
  "trulyNewTracks lastFetchedTimestamp allNewTracks =
     filter (\<lambda>t. filter_ts t > lastFetchedTimestamp) allNewTracks"

text \<open>The identity of a track as the loop normalises it, the key of its group and the
  name of its file.\<close>

definition track_artist :: "LastFmTrack \<Rightarrow> string" where
  "track_artist t = trim_or (t_artist t) ''Unknown''"

definition track_name :: "LastFmTrack \<Rightarrow> string" where
  "track_name t = trim_or (t_name t) ''Unknown''"

definition group_key :: "string \<Rightarrow> string \<Rightarrow> string" where
  "group_key a_artist a_name = a_artist @ ''|'' @ a_name"

definition track_fileName :: "string \<Rightarrow> string \<Rightarrow> string" where
  "track_fileName a_artist a_name =
     sanitizeFileName a_artist @ '' - '' @ sanitizeFileName a_name @ ''.md''"

definition track_album :: "LastFmTrack \<Rightarrow> string" where
  "track_album t = (case t_album t of None \<Rightarrow> [] | Some a \<Rightarrow> trim a)"

text \<open>Lines 276 to 286: what the loop does to the group of the event, once it has
  found or made it.\<close>

definition touchGroup :: "TrackGroup \<Rightarrow> int \<Rightarrow> string \<Rightarrow> string \<Rightarrow> string \<Rightarrow> TrackGroup" where
  "touchGroup g0 e_ts e_iso a_album a_coverUrl =
     (let g1 = g0\<lparr>count := count g0 + 1\<rparr>;
          g2 = (if e_ts > latestTs g1
                then g1\<lparr>latestIso := e_iso, latestTs := e_ts, album := a_album,
                        coverUrl := a_coverUrl\<rparr>
                else g1);
          g3 = (if e_ts < firstTs g2 then g2\<lparr>firstIso := e_iso, firstTs := e_ts\<rparr> else g2)
      in g3)"

text \<open>One turn of \<^verbatim>\<open>for (const t of trulyNewTracks)\<close>. \<^verbatim>\<open>trackGroups\<close> is a \<^verbatim>\<open>Map\<close>, which
  keeps the order of insertion: an association list, a new key added at its end.\<close>

definition aggregateStep ::
  "host \<Rightarrow> (string \<times> TrackGroup) list \<times> HistoryPlay list \<Rightarrow> LastFmTrack
     \<Rightarrow> (string \<times> TrackGroup) list \<times> HistoryPlay list" where
  "aggregateStep h st t =
     (let trackGroups = fst st; historyPlays = snd st;
          a_artist = track_artist t;
          a_name = track_name t;
          key = group_key a_artist a_name;
          e_ts = event_ts h t;
          e_iso = timestampToLocalISO h e_ts;
          a_album = track_album t;
          a_coverUrl = extractBestCover (t_image t);
          a_fileName = track_fileName a_artist a_name;
          g0 = (case map_of trackGroups key of
                  Some g \<Rightarrow> g
                | None \<Rightarrow> \<lparr>count = 0, latestIso = e_iso, latestTs = e_ts, firstIso = e_iso,
                            firstTs = e_ts, album = a_album, coverUrl = a_coverUrl,
                            artist = a_artist, name = a_name, fileName = a_fileName\<rparr>)
      in (AList.update key (touchGroup g0 e_ts e_iso a_album a_coverUrl) trackGroups,
          historyPlays @ [\<lparr>hp_fileName = a_fileName, dateIso = e_iso, ts = e_ts\<rparr>]))"

definition aggregate ::
  "host \<Rightarrow> LastFmTrack list \<Rightarrow> (string \<times> TrackGroup) list \<times> HistoryPlay list" where
  "aggregate h newTracks = foldl (aggregateStep h) ([], []) newTracks"

text \<open>\<^verbatim>\<open>historyPlays.sort((a, b) => a.ts - b.ts)\<close>: ascending and stable.\<close>

definition sortPlays :: "HistoryPlay list \<Rightarrow> HistoryPlay list" where
  "sortPlays plays = sort_key ts plays"

section \<open>The store writer\<close>

text \<open>\<^verbatim>\<open>for (const group of trackGroups.values())\<close>: \<open>Inr\<close> the vault with the numbers of
  records created and updated, \<open>Inl\<close> the vault at the moment \<^verbatim>\<open>vault.create\<close> rejected (a
  folder has the path of the record).\<close>

fun writeGroups ::
  "host \<Rightarrow> string \<Rightarrow> vault_state \<Rightarrow> nat \<Rightarrow> nat \<Rightarrow> TrackGroup list
     \<Rightarrow> vault_state + vault_state \<times> nat \<times> nat" where
  "writeGroups h a_folder v created updated [] = Inr (v, created, updated)"
| "writeGroups h a_folder v created updated (g # gs) =
     (let path = normalizePath h (a_folder @ ''/'' @ fileName g);
          lastfmUrl = buildLastFmUrl (artist g) (name g)
      in case v path of
           Some (TFile content) \<Rightarrow>
             writeGroups h a_folder
               (v(path \<mapsto> TFile (updateTrackContent content (count g) (latestIso g))))
               created (updated + 1) gs
         | Some TFolder \<Rightarrow> Inl v
         | None \<Rightarrow>
             writeGroups h a_folder (v(path \<mapsto> TFile (buildNewTrackContent g lastfmUrl)))
               (created + 1) updated gs)"

subsection \<open>\<open>appendToHistory\<close>\<close>

definition historyEntry :: "string \<Rightarrow> string \<Rightarrow> string" where
  "historyEntry a_name isoStr = ''- '' @ isoStr @ '' '' @ emdash @ '' [['' @ a_name @ '']]''"

definition heading :: string where
  "heading = ''# History''"

text \<open>\<^verbatim>\<open>lines.findIndex(l => l.trim() === "# History") + 1\<close>: 0 when no line is the
  heading.\<close>

definition afterHeading :: "string list \<Rightarrow> nat" where
  "afterHeading lines =
     (if list_ex (\<lambda>l. trim l = heading) lines
      then length (takeWhile (\<lambda>l. trim l \<noteq> heading) lines) + 1 else 0)"

text \<open>\<^verbatim>\<open>while (insertAt < lines.length && lines[insertAt]?.trim() === "") insertAt++\<close>\<close>

function skipBlank :: "string list \<Rightarrow> nat \<Rightarrow> nat" where
  "skipBlank lines insertAt =
     (if insertAt < length lines \<and> trim (lines ! insertAt) = [] then skipBlank lines (insertAt + 1)
      else insertAt)"
  by pat_completeness auto
termination
  by (relation "measure (\<lambda>(lines, insertAt). length lines - insertAt)") auto

declare skipBlank.simps [simp del]

text \<open>From the guard on the heading to \<^verbatim>\<open>lines.join("\n")\<close>: the content with the entry
  put in.\<close>

definition insertEntry :: "string \<Rightarrow> string \<Rightarrow> string" where
  "insertEntry content entry =
     (let content1 = (if \<not> str_includes content heading
                      then heading @ [nl, nl] @ trimStart content else content);
          lines = split_nl content1;
          insertAt = skipBlank lines (afterHeading lines)
      in join_nl (take insertAt lines @ [entry] @ drop insertAt lines))"

definition historyFolderOf :: "host \<Rightarrow> LastFmSettings \<Rightarrow> string" where
  "historyFolderOf h st =
     (if trim (historyFolderPath st) \<noteq> [] then normalizePath h (historyFolderPath st)
      else normalizePath h (folder st @ ''/History''))"

text \<open>\<open>None\<close> when \<^verbatim>\<open>vault.modify\<close> rejects: a folder has the path of the history file.\<close>

definition appendToHistory ::
  "host \<Rightarrow> LastFmSettings \<Rightarrow> vault_state \<Rightarrow> string \<Rightarrow> string \<Rightarrow> vault_state option" where
  "appendToHistory h st v a_name isoStr =
     (let year = take 4 isoStr;
          a_folder = historyFolderOf h st;
          path = historyPath h a_folder year;
          entry = historyEntry a_name isoStr;
          content = (case v path of Some (TFile c) \<Rightarrow> c | _ \<Rightarrow> heading @ [nl, nl]);
          v1 = (case v path of Some (TFile c) \<Rightarrow> v | _ \<Rightarrow> createFolder v a_folder)
      in if str_includes content entry then Some v1
         else (case v1 path of
                 Some TFolder \<Rightarrow> None
               | _ \<Rightarrow> Some (v1(path \<mapsto> TFile (insertEntry content entry)))))"

text \<open>\<^verbatim>\<open>play.fileName.replace(/\.md$/, "")\<close>\<close>

definition linkName :: "string \<Rightarrow> string" where
  "linkName a_fileName =
     (if length a_fileName \<ge> 3 \<and> drop (length a_fileName - 3) a_fileName = ''.md''
      then take (length a_fileName - 3) a_fileName else a_fileName)"

fun appendPlays ::
  "host \<Rightarrow> LastFmSettings \<Rightarrow> vault_state \<Rightarrow> HistoryPlay list \<Rightarrow> vault_state + vault_state" where
  "appendPlays h st v [] = Inr v"
| "appendPlays h st v (play # plays) =
     (case appendToHistory h st v (linkName (hp_fileName play)) (dateIso play) of
        None \<Rightarrow> Inl v
      | Some v' \<Rightarrow> appendPlays h st v' plays)"

section \<open>\<open>syncTracks\<close>\<close>

text \<open>How a run ends: the notices of the plugin, \<open>Summary\<close> with the numbers fetched,
  new, created and updated, and \<open>Crashed\<close> for a rejection the plugin does not catch.\<close>

datatype outcome =
    MissingCredentials
  | HistoryFolderMissing
  | SyncFailed "int option"
  | NoNewTracks
  | AllRecorded
  | Crashed
  | Summary nat nat nat nat

text \<open>Lines 103 to 118: the history folder and the state after the branch, \<open>None\<close> when
  the run returns there.\<close>

definition historyFolderStep :: "host \<Rightarrow> plugin \<Rightarrow> (string \<times> plugin) option" where
  "historyFolderStep h p =
     (if trim (historyFolderPath (settings p)) \<noteq> [] then
        (let historyFolder = normalizePath h (historyFolderPath (settings p))
         in if vault p historyFolder = None then None else Some (historyFolder, p))
      else
        (let historyFolder = normalizePath h (folder (settings p) @ ''/History'');
             p1 = p\<lparr>vault := createFolder (vault p) historyFolder\<rparr>;
             p2 = p1\<lparr>settings := (settings p1)\<lparr>historyFolderPath := historyFolder\<rparr>\<rparr>
         in Some (historyFolder, saveSettings p2)))"

text \<open>From the filter to the summary, for the tracks fetched and the watermark
  (\<open>lastFetchedTimestamp\<close>, 0 when no history was found).\<close>

definition storeRun ::
  "host \<Rightarrow> plugin \<Rightarrow> int \<Rightarrow> LastFmTrack list \<Rightarrow> outcome \<times> plugin" where
  "storeRun h p lastFetchedTimestamp allNewTracks =
     (let newTracks = trulyNewTracks lastFetchedTimestamp allNewTracks
      in if newTracks = [] then (AllRecorded, p)
         else
           (let agg = aggregate h newTracks;
                trackGroups = fst agg;
                historyPlays = sortPlays (snd agg)
            in case writeGroups h (folder (settings p)) (vault p) 0 0 (map snd trackGroups) of
                 Inl v \<Rightarrow> (Crashed, p\<lparr>vault := v\<rparr>)
               | Inr (v, created, updated) \<Rightarrow>
                   (case appendPlays h (settings p) v historyPlays of
                      Inl v' \<Rightarrow> (Crashed, p\<lparr>vault := v'\<rparr>)
                    | Inr v' \<Rightarrow>
                        (Summary (length allNewTracks) (length newTracks) created updated,
                         p\<lparr>vault := v'\<rparr>))))"

definition syncTracks :: "host \<Rightarrow> remote \<Rightarrow> plugin \<Rightarrow> outcome \<times> plugin" where
  "syncTracks h rm p =
     (if apiKey (settings p) = [] \<or> username (settings p) = [] then (MissingCredentials, p)
      else
        (let folderPath = normalizePath h (folder (settings p));
             p0 = p\<lparr>vault := createFolder (vault p) folderPath\<rparr>
         in case historyFolderStep h p0 of
              None \<Rightarrow> (HistoryFolderMissing, p0)
            | Some (historyFolder, p1) \<Rightarrow>
                (let found = resolveWatermark h (vault p1) historyFolder;
                     lastFetchedTimestamp = (case found of Some t \<Rightarrow> t | None \<Rightarrow> 0);
                     frm = (case found of Some t \<Rightarrow> Some (t + 1) | None \<Rightarrow> None);
                     res = fetchAll rm frm;
                     p2 = p1\<lparr>journal := journal p1 @ snd res\<rparr>
                 in case fst res of
                      Aborted st \<Rightarrow> (SyncFailed st, p2)
                    | Fetched allNewTracks \<Rightarrow>
                        if allNewTracks = [] then (NoNewTracks, p2)
                        else storeRun h p2 lastFetchedTimestamp allNewTracks)))"

section \<open>A host in the time zone UTC\<close>

text \<open>
  The host the concrete runs below are evaluated in: the proleptic Gregorian calendar in
  UTC, and \<^verbatim>\<open>normalizePath\<close> on paths that are normal already. \<^verbatim>\<open>new Date(s)\<close> is read as V8
  reads the one format the resolver passes to it (\<^verbatim>\<open>YYYY-MM-DDTHH:MM:SS\<close>, a date-time
  without offset, which is local time): the month is 1 to 12, the day 1 to 31 whatever
  the month (a day the month does not have runs into the next month), the time at most
  \<^verbatim>\<open>23:59:59\<close>, or \<^verbatim>\<open>24:00:00\<close>. Any other string is taken as invalid.
\<close>

definition civil_from_days :: "int \<Rightarrow> int \<times> int \<times> int" where
  "civil_from_days z0 =
     (let z = z0 + 719468;
          era = z div 146097;
          doe = z mod 146097;
          yoe = (doe - doe div 1460 + doe div 36524 - doe div 146096) div 365;
          doy = doe - (365 * yoe + yoe div 4 - yoe div 100);
          mp = (5 * doy + 2) div 153;
          d = doy - (153 * mp + 2) div 5 + 1;
          m = (if mp < 10 then mp + 3 else mp - 9);
          y = yoe + era * 400
      in ((if m \<le> 2 then y + 1 else y), m, d))"

definition days_from_civil :: "int \<Rightarrow> int \<Rightarrow> int \<Rightarrow> int" where
  "days_from_civil y0 m d =
     (let y = (if m \<le> 2 then y0 - 1 else y0);
          era = y div 400;
          yoe = y - era * 400;
          doy = (153 * (if m > 2 then m - 3 else m + 9) + 2) div 5 + d - 1;
          doe = yoe * 365 + yoe div 4 - yoe div 100 + doy
      in era * 146097 + doe - 719468)"

definition utc_parse :: "string \<Rightarrow> int option" where
  "utc_parse s =
     (if length s = 19 \<and> fits ''dddd-dd-ddTdd:dd:dd'' s then
        (let y = (int_of_digits (take 4 s));
             m = (int_of_digits (take 2 (drop 5 s)));
             d = (int_of_digits (take 2 (drop 8 s)));
             hh = (int_of_digits (take 2 (drop 11 s)));
             mi = (int_of_digits (take 2 (drop 14 s)));
             ss = (int_of_digits (take 2 (drop 17 s)));
             days = days_from_civil y m d
         in if 1 \<le> m \<and> m \<le> 12 \<and> 1 \<le> d \<and> d \<le> 31 \<and> mi \<le> 59 \<and> ss \<le> 59
               \<and> (hh \<le> 23 \<or> (hh = 24 \<and> mi = 0 \<and> ss = 0))
            then Some ((days * 86400 + hh * 3600 + mi * 60 + ss) * 1000) else None)
      else None)"

definition utcHost :: "int \<Rightarrow> host" where
  "utcHost now =
     \<lparr>normalizePath = (\<lambda>path. path),
      getFullYear = (\<lambda>ms. fst (civil_from_days (ms div 86400000))),
      getMonth = (\<lambda>ms. fst (snd (civil_from_days (ms div 86400000))) - 1),
      getDate = (\<lambda>ms. snd (snd (civil_from_days (ms div 86400000)))),
      getHours = (\<lambda>ms. (ms mod 86400000) div 3600000),
      getMinutes = (\<lambda>ms. (ms mod 3600000) div 60000),
      getSeconds = (\<lambda>ms. (ms mod 60000) div 1000),
      dateParse = utc_parse,
      nowMs = now\<rparr>"

section \<open>Concrete data\<close>

text \<open>The data of the runs that are evaluated below: the default settings with
  credentials, an empty vault, a remote that answers every request with the same single
  page, and the UTC host at a moment in October 2026.\<close>

definition demoSettings :: LastFmSettings where
  "demoSettings = \<lparr>apiKey = ''key'', username = ''user'', folder = ''Music Library'',
                    historyFolderPath = [], autoSyncEnabled = False\<rparr>"

definition freshPlugin :: plugin where
  "freshPlugin = \<lparr>settings = demoSettings, vault = Map.empty, saved = None, journal = []\<rparr>"

definition mkTrack :: "string \<Rightarrow> string \<Rightarrow> int option \<Rightarrow> LastFmTrack" where
  "mkTrack a_artist a_name uts =
     \<lparr>t_name = a_name, t_artist = a_artist, t_album = None, t_uts = uts, t_image = None\<rparr>"

definition onePage :: "LastFmTrack list \<Rightarrow> remote" where
  "onePage tracks = (\<lambda>n page frm. Json \<lparr>api_error = None, totalPagesAttr = Some 1, track = tracks\<rparr>)"

definition demoHost :: host where
  "demoHost = utcHost 1793000000000"

text \<open>Three remotes: one that rejects page 2 with status 429 twice and then answers,
  with three pages in all; one that always rejects with status 500; one that always
  answers with an in-band error.\<close>

definition flakyRemote :: remote where
  "flakyRemote = (\<lambda>n page frm.
      if page = 2 \<and> n < 3 then Rejects (Some 429)
      else Json \<lparr>api_error = None, totalPagesAttr = Some 3,
                 track = [mkTrack ''Artist'' ''Song'' (Some (1767312000 + int page))]\<rparr>)"

definition failingRemote :: remote where
  "failingRemote = (\<lambda>n page frm. Rejects (Some 500))"

definition errorRemote :: remote where
  "errorRemote = (\<lambda>n page frm. Json \<lparr>api_error = Some 6, totalPagesAttr = None, track = []\<rparr>)"

text \<open>Plays of one song, in February 2005 and in January 2026, and the record file of
  the song with a given count, first and last listening time.\<close>

definition play_2005_02_27 :: LastFmTrack where
  "play_2005_02_27 = mkTrack ''Artist'' ''Song'' (Some 1109462400)"

definition play_2005_02_28 :: LastFmTrack where
  "play_2005_02_28 = mkTrack ''Artist'' ''Song'' (Some 1109548800)"

definition play_2026_01_01 :: LastFmTrack where
  "play_2026_01_01 = mkTrack ''Artist'' ''Song'' (Some 1767225600)"

definition play_2026_01_02 :: LastFmTrack where
  "play_2026_01_02 = mkTrack ''Artist'' ''Song'' (Some 1767312000)"

definition songRecord :: "nat \<Rightarrow> string \<Rightarrow> string \<Rightarrow> string" where
  "songRecord n first_at last_at =
     buildNewTrackContent
       \<lparr>count = n, latestIso = last_at, latestTs = 0, firstIso = first_at, firstTs = 0,
        album = [], coverUrl = [], artist = ''Artist'', name = ''Song'',
        fileName = ''Artist - Song.md''\<rparr>
       (buildLastFmUrl ''Artist'' ''Song'')"

text \<open>The plugin once the history folder is set up, with a given vault and journal.\<close>

definition readyPlugin :: "vault_state \<Rightarrow> effect list \<Rightarrow> plugin" where
  "readyPlugin v jr =
     \<lparr>settings = demoSettings\<lparr>historyFolderPath := ''Music Library/History''\<rparr>,
      vault = v,
      saved = Some (demoSettings\<lparr>historyFolderPath := ''Music Library/History''\<rparr>),
      journal = jr\<rparr>"

definition emptyLibrary :: vault_state where
  "emptyLibrary = [''Music Library'' \<mapsto> TFolder, ''Music Library/History'' \<mapsto> TFolder]"

text \<open>A history file with the given entries under the heading, as the plugin lays it
  out: the heading, two empty lines, the entries.\<close>

definition historyLog :: "string list \<Rightarrow> string" where
  "historyLog entries = join_nl ([heading, [], []] @ entries)"

definition songEntry :: "string \<Rightarrow> string" where
  "songEntry isoStr = historyEntry ''Artist - Song'' isoStr"

text \<open>The vault after a first run that fetched one play of the song, of 28 February 2005
  and of 1 January 2026.\<close>

definition library_2005 :: vault_state where
  "library_2005 = emptyLibrary
          (''Music Library/Artist - Song.md'' \<mapsto>
               TFile (songRecord 1 ''2005-02-28T00:00:00'' ''2005-02-28T00:00:00''),
           ''Music Library/History/History-2005.md'' \<mapsto>
               TFile (historyLog [songEntry ''2005-02-28T00:00:00'']))"

definition library_2026 :: vault_state where
  "library_2026 = emptyLibrary
          (''Music Library/Artist - Song.md'' \<mapsto>
               TFile (songRecord 1 ''2026-01-01T00:00:00'' ''2026-01-01T00:00:00''),
           ''Music Library/History/History-2026.md'' \<mapsto>
               TFile (historyLog [songEntry ''2026-01-01T00:00:00'']))"

text \<open>Two plugins on which the check of the history folder lets the run go on: one whose
  setting is a single space, on an empty vault, and one whose setting is the path of a
  file.\<close>

definition spacePlugin :: plugin where
  "spacePlugin = freshPlugin\<lparr>settings := demoSettings\<lparr>historyFolderPath := '' ''\<rparr>\<rparr>"

definition filePlugin :: plugin where
  "filePlugin = freshPlugin\<lparr>settings := demoSettings\<lparr>historyFolderPath := ''Archive''\<rparr>,
                             vault := [''Archive'' \<mapsto> TFile ''notes'']\<rparr>"

section \<open>Runs that end before the store writer\<close>

lemma files_of_createFolder: "files_of (createFolder v path) = files_of v"
  by (rule ext) (simp add: files_of_def createFolder_def)

lemma historyFolderStep_files:
  "historyFolderStep h p = Some (hf, p1) \<Longrightarrow>
     files_of (vault p1) = files_of (vault p) \<and> journal p1 = journal p"
  by (auto simp: historyFolderStep_def Let_def saveSettings_def files_of_createFolder
      split: if_splits)

lemma storeRun_AllRecorded:
  "fst (storeRun h p w evs) = AllRecorded \<Longrightarrow> snd (storeRun h p w evs) = p"
  by (auto simp: storeRun_def Let_def split: if_splits sum.splits prod.splits)

lemma storeRun_not_early:
  "fst (storeRun h p w evs) \<notin> {MissingCredentials, HistoryFolderMissing, NoNewTracks}"
  "fst (storeRun h p w evs) \<noteq> SyncFailed st"
  by (auto simp: storeRun_def Let_def split: if_splits sum.splits prod.splits)

lemma syncTracks_unfold:
  assumes "apiKey (settings p) \<noteq> []" "username (settings p) \<noteq> []"
    and "historyFolderStep h (p\<lparr>vault := createFolder (vault p) (normalizePath h (folder (settings p)))\<rparr>) = Some (hf, p1)"
  shows "syncTracks h rm p =
     (let found = resolveWatermark h (vault p1) hf;
          res = fetchAll rm (case found of Some t \<Rightarrow> Some (t + 1) | None \<Rightarrow> None);
          p2 = p1\<lparr>journal := journal p1 @ snd res\<rparr>
      in case fst res of
           Aborted st \<Rightarrow> (SyncFailed st, p2)
         | Fetched allNewTracks \<Rightarrow>
             if allNewTracks = [] then (NoNewTracks, p2)
             else storeRun h p2 (case found of Some t \<Rightarrow> t | None \<Rightarrow> 0) allNewTracks)"
  using assms by (simp add: syncTracks_def Let_def)

lemma syncTracks_no_write:
  assumes "fst (syncTracks h rm p) \<in> {MissingCredentials, HistoryFolderMissing, NoNewTracks, AllRecorded} \<or> fst (syncTracks h rm p) = SyncFailed st"
  shows "files_of (vault (snd (syncTracks h rm p))) = files_of (vault p)"
proof (cases "apiKey (settings p) = [] \<or> username (settings p) = []")
  case True
  then show ?thesis by (simp add: syncTracks_def)
next
  case False
  let ?p0 = "p\<lparr>vault := createFolder (vault p) (normalizePath h (folder (settings p)))\<rparr>"
  have f0: "files_of (vault ?p0) = files_of (vault p)"
    by (simp add: files_of_createFolder)
  show ?thesis
  proof (cases "historyFolderStep h ?p0")
    case None
    with False show ?thesis
      using f0 by (simp add: syncTracks_def Let_def)
  next
    case (Some a)
    obtain hf p1 where a: "a = (hf, p1)" by (cases a)
    have f1: "files_of (vault p1) = files_of (vault p)"
      using Some a historyFolderStep_files f0 by metis
    let ?found = "resolveWatermark h (vault p1) hf"
    let ?res = "fetchAll rm (case ?found of Some t \<Rightarrow> Some (t + 1) | None \<Rightarrow> None)"
    let ?p2 = "p1\<lparr>journal := journal p1 @ snd ?res\<rparr>"
    have f2: "files_of (vault ?p2) = files_of (vault p)"
      using f1 by simp
    have eq: "syncTracks h rm p = (case fst ?res of
                      Aborted st \<Rightarrow> (SyncFailed st, ?p2)
                    | Fetched allNewTracks \<Rightarrow>
                        if allNewTracks = [] then (NoNewTracks, ?p2)
                        else storeRun h ?p2 (case ?found of Some t \<Rightarrow> t | None \<Rightarrow> 0) allNewTracks)"
      using False Some a syncTracks_unfold[of p h hf p1 rm] by (simp add: Let_def)
    show ?thesis
    proof (cases "fst ?res")
      case (Aborted x1)
      then show ?thesis using eq f2 by simp
    next
      case (Fetched evs)
      show ?thesis
      proof (cases "evs = []")
        case True
        then show ?thesis using eq f2 Fetched by simp
      next
        case False
        then have e: "syncTracks h rm p = storeRun h ?p2 (case ?found of Some t \<Rightarrow> t | None \<Rightarrow> 0) evs"
          using eq Fetched by simp
        with assms storeRun_not_early[of h ?p2 _ evs]
        have "fst (storeRun h ?p2 (case ?found of Some t \<Rightarrow> t | None \<Rightarrow> 0) evs) = AllRecorded"
          by auto
        then show ?thesis using e f2 storeRun_AllRecorded by metis
      qed
    qed
  qed
qed


lemma writeGroups_folder:
  "v q = Some TFolder \<Longrightarrow>
     (case writeGroups h fld v c u gs of Inl v' \<Rightarrow> v' q | Inr (v', c', u') \<Rightarrow> v' q) = Some TFolder"
proof (induction gs arbitrary: v c u)
  case Nil
  then show ?case by simp
next
  case (Cons g gs)
  let ?path = "normalizePath h (fld @ ''/'' @ fileName g)"
  have ne: "v ?path \<noteq> Some TFolder \<Longrightarrow> q \<noteq> ?path"
    using Cons.prems by auto
  show ?case
  proof (cases "v ?path")
    case None
    let ?v1 = "v(?path \<mapsto> TFile (buildNewTrackContent g (buildLastFmUrl (artist g) (name g))))"
    have "?v1 q = Some TFolder"
      using Cons.prems ne None by simp
    then have "(case writeGroups h fld ?v1 (c + 1) u gs of Inl v' \<Rightarrow> v' q | Inr (v', c', u') \<Rightarrow> v' q)
        = Some TFolder"
      by (rule Cons.IH[of ?v1 "c + 1" u])
    then show ?thesis using None by (simp add: Let_def del: fun_upd_apply)
  next
    case (Some nd)
    show ?thesis
    proof (cases nd)
      case (TFile content)
      let ?v1 = "v(?path \<mapsto> TFile (updateTrackContent content (count g) (latestIso g)))"
      have "?v1 q = Some TFolder"
        using Cons.prems ne Some TFile by simp
      then have "(case writeGroups h fld ?v1 c (u + 1) gs of Inl v' \<Rightarrow> v' q | Inr (v', c', u') \<Rightarrow> v' q)
          = Some TFolder"
        by (rule Cons.IH[of ?v1 c "u + 1"])
      then show ?thesis using Some TFile by (simp add: Let_def del: fun_upd_apply)
    next
      case TFolder
      then show ?thesis using Some Cons.prems by (simp add: Let_def)
    qed
  qed
qed

lemma appendToHistory_folder:
  "v q = Some TFolder \<Longrightarrow> appendToHistory h st v a i = Some v' \<Longrightarrow> v' q = Some TFolder"
  by (auto simp: appendToHistory_def Let_def createFolder_def
      split: if_splits option.splits node.splits)

lemma appendPlays_folder:
  "v q = Some TFolder \<Longrightarrow>
     (case appendPlays h st v plays of Inl v' \<Rightarrow> v' q | Inr v' \<Rightarrow> v' q) = Some TFolder"
proof (induction plays arbitrary: v)
  case Nil
  then show ?case by simp
next
  case (Cons play plays)
  show ?case
  proof (cases "appendToHistory h st v (linkName (hp_fileName play)) (dateIso play)")
    case None
    then show ?thesis using Cons.prems by simp
  next
    case (Some v')
    then have "v' q = Some TFolder" using Cons.prems appendToHistory_folder by blast
    then have "(case appendPlays h st v' plays of Inl v' \<Rightarrow> v' q | Inr v' \<Rightarrow> v' q) = Some TFolder"
      by (rule Cons.IH[of v'])
    then show ?thesis using Some by simp
  qed
qed

lemma storeRun_folder:
  "vault p q = Some TFolder \<Longrightarrow> vault (snd (storeRun h p w evs)) q = Some TFolder"
proof -
  assume a: "vault p q = Some TFolder"
  let ?new = "trulyNewTracks w evs"
  let ?gs = "map snd (fst (aggregate h ?new))"
  let ?plays = "sortPlays (snd (aggregate h ?new))"
  show ?thesis
  proof (cases "?new = []")
    case True
    then show ?thesis using a by (simp add: storeRun_def)
  next
    case False
    show ?thesis
    proof (cases "writeGroups h (folder (settings p)) (vault p) 0 0 ?gs")
      case (Inl v)
      then show ?thesis
        using False a writeGroups_folder[of "vault p" q h "folder (settings p)" 0 0 ?gs]
        by (simp add: storeRun_def Let_def)
    next
      case (Inr r)
      obtain v c u where r: "r = (v, c, u)" by (cases r)
      have vq: "v q = Some TFolder"
        using Inr r a writeGroups_folder[of "vault p" q h "folder (settings p)" 0 0 ?gs] by simp
      show ?thesis
        using False Inr r vq appendPlays_folder[of v q h "settings p" ?plays]
        by (simp add: storeRun_def Let_def split: sum.splits)
    qed
  qed
qed

lemma storeRun_settings:
  "settings (snd (storeRun h p w evs)) = settings p \<and> saved (snd (storeRun h p w evs)) = saved p
     \<and> journal (snd (storeRun h p w evs)) = journal p"
  by (simp add: storeRun_def Let_def split: sum.splits prod.splits)

lemma syncTracks_eval:
  assumes "apiKey (settings p) \<noteq> []" "username (settings p) \<noteq> []"
    and "historyFolderStep h (p\<lparr>vault := createFolder (vault p) (normalizePath h (folder (settings p)))\<rparr>) = Some (hf, p1)"
    and "resolveWatermark h (vault p1) hf = found"
    and "fetchAll rm (case found of Some t \<Rightarrow> Some (t + 1) | None \<Rightarrow> None) = (Fetched evs, jr)"
    and "evs \<noteq> []"
  shows "syncTracks h rm p =
           storeRun h (p1\<lparr>journal := journal p1 @ jr\<rparr>) (case found of Some t \<Rightarrow> t | None \<Rightarrow> 0) evs"
  using assms(4-6) unfolding syncTracks_unfold[OF assms(1-3)] by (simp add: Let_def)

lemma normalizePath_demoHost: "normalizePath demoHost path = path"
  by (simp add: demoHost_def utcHost_def)

lemma trim_Nil: "trim [] = []"
  by code_simp

lemma fresh_step:
  "historyFolderStep demoHost (freshPlugin\<lparr>vault := createFolder (vault freshPlugin)
       (normalizePath demoHost (folder (settings freshPlugin)))\<rparr>)
   = Some (''Music Library/History'',
       \<lparr>settings = demoSettings\<lparr>historyFolderPath := ''Music Library/History''\<rparr>,
        vault = [''Music Library'' \<mapsto> TFolder, ''Music Library/History'' \<mapsto> TFolder],
        saved = Some (demoSettings\<lparr>historyFolderPath := ''Music Library/History''\<rparr>),
        journal = []\<rparr>)"
  by (simp add: historyFolderStep_def freshPlugin_def demoSettings_def normalizePath_demoHost
      trim_Nil createFolder_def saveSettings_def Let_def)

lemma fresh_watermark:
  "resolveWatermark demoHost [''Music Library'' \<mapsto> TFolder, ''Music Library/History'' \<mapsto> TFolder]
     ''Music Library/History'' = None"
  by code_simp

lemma fresh_run:
  assumes "fetchAll rm None = (Fetched evs, jr)" and "evs \<noteq> []"
  shows "syncTracks demoHost rm freshPlugin
          = storeRun demoHost
              \<lparr>settings = demoSettings\<lparr>historyFolderPath := ''Music Library/History''\<rparr>,
               vault = [''Music Library'' \<mapsto> TFolder, ''Music Library/History'' \<mapsto> TFolder],
               saved = Some (demoSettings\<lparr>historyFolderPath := ''Music Library/History''\<rparr>),
               journal = jr\<rparr> 0 evs"
proof -
  have c: "apiKey (settings freshPlugin) \<noteq> []" "username (settings freshPlugin) \<noteq> []"
    by (simp_all add: freshPlugin_def demoSettings_def)
  show ?thesis
    using syncTracks_eval[OF c fresh_step, of None rm evs jr] assms fresh_watermark by simp
qed

section \<open>The steps of the fetch loop\<close>

lemma fetchLoop_retry:
  assumes "rm n page frm = Rejects st" "transient st" "attempts < 2" "int page \<le> totalPages"
    and "attempts' = attempts + 1" "n' = n + 1" "jr' = jr @ [Request page frm, Sleep (backoff st)]"
  shows "fetchLoop rm frm page totalPages attempts acc n jr
        = fetchLoop rm frm page totalPages attempts' acc n' jr'"
  using assms by (subst fetchLoop.simps) (simp add: maxAttempts_def)

lemma fetchLoop_abort:
  assumes "rm n page frm = Rejects st" "\<not> transient st \<or> attempts = 2" "attempts < 3" "int page \<le> totalPages"
  shows "fetchLoop rm frm page totalPages attempts acc n jr = (Aborted st, jr @ [Request page frm])"
  using assms by (subst fetchLoop.simps) (auto simp add: maxAttempts_def)

lemma fetchLoop_api_error:
  assumes "rm n page frm = Json d" "\<not> no_api_error d" "attempts < 3" "int page \<le> totalPages"
  shows "fetchLoop rm frm page totalPages attempts acc n jr = (Aborted None, jr @ [Request page frm])"
  using assms by (subst fetchLoop.simps) (auto simp add: maxAttempts_def no_api_error_def)

lemma fetchLoop_page:
  assumes "rm n page frm = Json d" "no_api_error d" "track d \<noteq> []" "attempts < 3" "int page \<le> totalPages"
    and "totalPages' = (if page = 1 \<and> totalPagesAttr d \<noteq> None
                           then (if frm \<noteq> None then the (totalPagesAttr d) else 1) else totalPages)"
    and "page' = page + 1" "n' = n + 1" "acc' = acc @ track d"
    and "jr' = jr @ [Request page frm] @ (if int page' \<le> totalPages' then [Sleep 2000] else [])"
  shows "fetchLoop rm frm page totalPages attempts acc n jr
     = fetchLoop rm frm page' totalPages' attempts acc' n' jr'"
  using assms by (subst fetchLoop.simps) (auto simp add: maxAttempts_def no_api_error_def Let_def)

lemma fetchLoop_empty_page:
  assumes "rm n page frm = Json d" "no_api_error d" "track d = []" "attempts < 3" "int page \<le> totalPages"
  shows "fetchLoop rm frm page totalPages attempts acc n jr = (Fetched acc, jr @ [Request page frm])"
  using assms by (subst fetchLoop.simps) (auto simp add: maxAttempts_def no_api_error_def Let_def)

lemma fetchLoop_done:
  assumes "\<not> int page \<le> totalPages"
  shows "fetchLoop rm frm page totalPages attempts acc n jr = (Fetched acc, jr)"
  using assms by (subst fetchLoop.simps) simp

lemma scenario_B:
  assumes "rm 0 1 (Some w) = Json d1" "no_api_error d1" "totalPagesAttr d1 = Some 3" "track d1 \<noteq> []"
    and "rm 1 2 (Some w) = Rejects (Some 429)" "rm 2 2 (Some w) = Rejects (Some 429)"
    and "rm 3 2 (Some w) = Json d2" "no_api_error d2" "track d2 \<noteq> []"
    and "rm 4 3 (Some w) = Json d3" "no_api_error d3" "track d3 \<noteq> []"
  shows "fetchAll rm (Some w) = (Fetched (track d1 @ track d2 @ track d3),
           [Request 1 (Some w), Sleep 2000, Request 2 (Some w), Sleep 30000, Request 2 (Some w),
            Sleep 30000, Request 2 (Some w), Sleep 2000, Request 3 (Some w)])"
proof -
  have t: "transient (Some 429)" by (simp add: transient_def)
  have "fetchAll rm (Some w) = fetchLoop rm (Some w) 2 3 0 (track d1) 1 [Request 1 (Some w), Sleep 2000]"
    unfolding fetchAll_def
    by (rule fetchLoop_page[where d = d1]) (use assms in simp_all)
  also have "\<dots> = fetchLoop rm (Some w) 2 3 1 (track d1) 2
        [Request 1 (Some w), Sleep 2000, Request 2 (Some w), Sleep 30000]"
    by (rule fetchLoop_retry[where st = "Some 429"]) (use assms t in \<open>simp_all add: backoff_def\<close>)
  also have "\<dots> = fetchLoop rm (Some w) 2 3 2 (track d1) 3
        [Request 1 (Some w), Sleep 2000, Request 2 (Some w), Sleep 30000, Request 2 (Some w), Sleep 30000]"
    by (rule fetchLoop_retry[where st = "Some 429"]) (use assms t in \<open>simp_all add: backoff_def\<close>)
  also have "\<dots> = fetchLoop rm (Some w) 3 3 2 (track d1 @ track d2) 4
        [Request 1 (Some w), Sleep 2000, Request 2 (Some w), Sleep 30000, Request 2 (Some w), Sleep 30000,
         Request 2 (Some w), Sleep 2000]"
    by (rule fetchLoop_page[where d = d2]) (use assms in simp_all)
  also have "\<dots> = fetchLoop rm (Some w) 4 3 2 (track d1 @ track d2 @ track d3) 5
        [Request 1 (Some w), Sleep 2000, Request 2 (Some w), Sleep 30000, Request 2 (Some w), Sleep 30000,
         Request 2 (Some w), Sleep 2000, Request 3 (Some w)]"
    by (rule fetchLoop_page[where d = d3]) (use assms in simp_all)
  also have "\<dots> = (Fetched (track d1 @ track d2 @ track d3),
           [Request 1 (Some w), Sleep 2000, Request 2 (Some w), Sleep 30000, Request 2 (Some w),
            Sleep 30000, Request 2 (Some w), Sleep 2000, Request 3 (Some w)])"
    by (rule fetchLoop_done) simp
  finally show ?thesis .
qed


lemma backoff_cases: "is_backoff (Sleep (backoff st))"
  by (simp add: is_backoff_def backoff_def)

lemma fetchLoop_retries:
  "attempts \<le> 2 \<Longrightarrow>
     length (filter is_backoff (snd (fetchLoop rm frm page totalPages attempts acc n jr))) + attempts
       \<le> length (filter is_backoff jr) + 2"
proof (induction rm frm page totalPages attempts acc n jr rule: fetchLoop.induct)
  case (1 rm frm page totalPages attempts allNewTracks n jr)
  show ?case
  proof (cases "int page \<le> totalPages \<and> attempts < maxAttempts")
    case False
    then show ?thesis using "1.prems" by (subst fetchLoop.simps) auto
  next
    case True
    show ?thesis
    proof (cases "rm n page frm")
      case (Rejects st)
      show ?thesis
      proof (cases "transient st \<and> attempts < maxAttempts - 1")
        case t: True
        have "length (filter is_backoff (snd (fetchLoop rm frm page totalPages (attempts + 1) allNewTracks
                  (n + 1) (jr @ [Request page frm, Sleep (backoff st)])))) + (attempts + 1)
              \<le> length (filter is_backoff (jr @ [Request page frm, Sleep (backoff st)])) + 2"
          using "1.IH"(2)[OF True Rejects t] t by (simp add: maxAttempts_def)
        then show ?thesis
          using True Rejects t
          by (subst fetchLoop.simps) (auto simp: is_backoff_def backoff_def)
      next
        case False
        then show ?thesis using True Rejects "1.prems"
          by (subst fetchLoop.simps) (auto simp: is_backoff_def)
      qed
    next
      case (Json d)
      show ?thesis
      proof (cases "api_error d \<noteq> None \<and> api_error d \<noteq> Some 0")
        case e: True
        then show ?thesis using True Json "1.prems"
          by (subst fetchLoop.simps) (auto simp: is_backoff_def)
      next
        case e: False
        let ?tp = "(if page = 1 \<and> totalPagesAttr d \<noteq> None
                         then (if frm \<noteq> None then the (totalPagesAttr d) else 1) else totalPages)"
        show ?thesis
        proof (cases "track d = []")
          case True
          then show ?thesis using \<open>int page \<le> totalPages \<and> attempts < maxAttempts\<close> Json e "1.prems"
            by (subst fetchLoop.simps) (auto simp: Let_def is_backoff_def)
        next
          case False
          have "length (filter is_backoff (snd (fetchLoop rm frm (page + 1) ?tp attempts
                  (allNewTracks @ track d) (n + 1)
                  (jr @ [Request page frm] @ (if int (page + 1) \<le> ?tp then [Sleep 2000] else []))))) + attempts
              \<le> length (filter is_backoff (jr @ [Request page frm] @ (if int (page + 1) \<le> ?tp then [Sleep 2000] else []))) + 2"
            using "1.IH"(1)[OF True Json e refl False] "1.prems" by simp
          then show ?thesis
            using \<open>int page \<le> totalPages \<and> attempts < maxAttempts\<close> Json e False "1.prems"
            by (subst fetchLoop.simps) (auto simp: Let_def is_backoff_def backoff_def)
        qed
      qed
    qed
  qed
qed

lemma fetchAll_retries: "length (filter is_backoff (snd (fetchAll rm frm))) \<le> 2"
  using fetchLoop_retries[of 0 rm frm 1 1 "[]" 0 "[]"] by (simp add: fetchAll_def)

lemma syncTracks_aborted:
  assumes "apiKey (settings p) \<noteq> []" "username (settings p) \<noteq> []"
    and "historyFolderStep h (p\<lparr>vault := createFolder (vault p) (normalizePath h (folder (settings p)))\<rparr>) = Some (hf, p1)"
    and "fetchAll rm (case resolveWatermark h (vault p1) hf of Some t \<Rightarrow> Some (t + 1) | None \<Rightarrow> None) = (Aborted st, jr)"
  shows "syncTracks h rm p = (SyncFailed st, p1\<lparr>journal := journal p1 @ jr\<rparr>)"
  unfolding syncTracks_unfold[OF assms(1-3)] using assms(4) by (simp add: Let_def)

lemma setup_vault:
  assumes "historyFolderStep h (p\<lparr>vault := createFolder (vault p) fp\<rparr>) = Some (hf, p1)"
  shows "files_of (vault p1) = files_of (vault p)"
    and "q \<noteq> fp \<Longrightarrow> q \<noteq> hf \<Longrightarrow> vault p1 q = vault p q"
proof -
  show "files_of (vault p1) = files_of (vault p)"
    using historyFolderStep_files[OF assms] by (simp add: files_of_createFolder)
  show "q \<noteq> fp \<Longrightarrow> q \<noteq> hf \<Longrightarrow> vault p1 q = vault p q"
    using assms
    by (auto simp: historyFolderStep_def Let_def saveSettings_def createFolder_def split: if_splits)
qed

lemma syncTracks_scenario_B:
  assumes "apiKey (settings p) \<noteq> []" "username (settings p) \<noteq> []"
    and "historyFolderStep h (p\<lparr>vault := createFolder (vault p) (normalizePath h (folder (settings p)))\<rparr>) = Some (hf, p1)"
    and "resolveWatermark h (vault p1) hf = Some W"
    and "rm 0 1 (Some (W + 1)) = Json d1" "no_api_error d1" "totalPagesAttr d1 = Some 3" "track d1 \<noteq> []"
    and "rm 1 2 (Some (W + 1)) = Rejects (Some 429)" "rm 2 2 (Some (W + 1)) = Rejects (Some 429)"
    and "rm 3 2 (Some (W + 1)) = Json d2" "no_api_error d2" "track d2 \<noteq> []"
    and "rm 4 3 (Some (W + 1)) = Json d3" "no_api_error d3" "track d3 \<noteq> []"
  shows "syncTracks h rm p
         = storeRun h (p1\<lparr>journal := journal p1 @
               [Request 1 (Some (W + 1)), Sleep 2000, Request 2 (Some (W + 1)), Sleep 30000,
                Request 2 (Some (W + 1)), Sleep 30000, Request 2 (Some (W + 1)), Sleep 2000,
                Request 3 (Some (W + 1))]\<rparr>) W (track d1 @ track d2 @ track d3)"
proof -
  have f: "fetchAll rm (case Some W of Some t \<Rightarrow> Some (t + 1) | None \<Rightarrow> None)
      = (Fetched (track d1 @ track d2 @ track d3),
           [Request 1 (Some (W + 1)), Sleep 2000, Request 2 (Some (W + 1)), Sleep 30000,
            Request 2 (Some (W + 1)), Sleep 30000, Request 2 (Some (W + 1)), Sleep 2000,
            Request 3 (Some (W + 1))])"
    using scenario_B[where rm = rm and w = "W + 1" and ?d1.0 = d1 and ?d2.0 = d2 and ?d3.0 = d3]
      assms(5-16) by simp
  have ne: "track d1 @ track d2 @ track d3 \<noteq> []" using assms(8) by simp
  show ?thesis
    using syncTracks_eval[OF assms(1-4), of rm "track d1 @ track d2 @ track d3"] f ne by simp
qed

lemma syncTracks_past_check:
  assumes "apiKey (settings p) \<noteq> []" "username (settings p) \<noteq> []"
    and "historyFolderStep h (p\<lparr>vault := createFolder (vault p) (normalizePath h (folder (settings p)))\<rparr>) = Some (hf, p1)"
  shows "fst (syncTracks h rm p) \<noteq> HistoryFolderMissing"
  unfolding syncTracks_unfold[OF assms]
  using storeRun_not_early(1)
  by (auto simp: Let_def split: fetched.splits)

section \<open>The counts of the groups\<close>

lemma sum_update:
  "distinct (map fst al) \<Longrightarrow>
     sum_list (map (\<lambda>kv. f (snd kv)) (AList.update k v al))
       + (case map_of al k of Some g \<Rightarrow> f g | None \<Rightarrow> 0)
     = sum_list (map (\<lambda>kv. f (snd kv)) al) + (f v :: nat)"
proof (induction al)
  case Nil
  then show ?case by simp
next
  case (Cons a al)
  obtain k' g' where a: "a = (k', g')" by (cases a)
  show ?case
  proof (cases "k' = k")
    case True
    then show ?thesis using a by simp
  next
    case False
    then show ?thesis using a Cons by (simp split: option.splits)
  qed
qed

lemma aggregateStep_keys:
  "distinct (map fst (fst st)) \<Longrightarrow> distinct (map fst (fst (aggregateStep h st t)))"
  by (simp add: aggregateStep_def Let_def distinct_update)

lemma count_touchGroup: "count (touchGroup g e_ts e_iso a c) = count g + 1"
  by (simp add: touchGroup_def Let_def)

lemma aggregateStep_sum:
  assumes "distinct (map fst (fst st))"
  shows "sum_list (map (\<lambda>kv. count (snd kv)) (fst (aggregateStep h st t)))
       = sum_list (map (\<lambda>kv. count (snd kv)) (fst st)) + 1"
proof -
  let ?key = "group_key (track_artist t) (track_name t)"
  let ?iso = "timestampToLocalISO h (event_ts h t)"
  let ?g0 = "(case map_of (fst st) ?key of
                  Some g \<Rightarrow> g
                | None \<Rightarrow> \<lparr>count = 0, latestIso = ?iso, latestTs = event_ts h t, firstIso = ?iso,
                            firstTs = event_ts h t, album = track_album t,
                            coverUrl = extractBestCover (t_image t),
                            artist = track_artist t, name = track_name t,
                            fileName = track_fileName (track_artist t) (track_name t)\<rparr>)"
  let ?g3 = "touchGroup ?g0 (event_ts h t) ?iso (track_album t) (extractBestCover (t_image t))"
  have e: "fst (aggregateStep h st t) = AList.update ?key ?g3 (fst st)"
    by (simp add: aggregateStep_def Let_def)
  have c: "count ?g3 = (case map_of (fst st) ?key of Some g \<Rightarrow> count g | None \<Rightarrow> 0) + 1"
    by (simp add: count_touchGroup split: option.splits)
  show ?thesis
    unfolding e using sum_update[OF assms, of count ?key ?g3] c by simp
qed

lemma foldl_aggregate_sum:
  "distinct (map fst (fst st)) \<Longrightarrow>
     sum_list (map (\<lambda>kv. count (snd kv)) (fst (foldl (aggregateStep h) st evs)))
       = sum_list (map (\<lambda>kv. count (snd kv)) (fst st)) + length evs
     \<and> distinct (map fst (fst (foldl (aggregateStep h) st evs)))"
proof (induction evs arbitrary: st)
  case Nil
  then show ?case by simp
next
  case (Cons t evs)
  have d: "distinct (map fst (fst (aggregateStep h st t)))"
    using Cons.prems by (rule aggregateStep_keys)
  show ?case
    using Cons.IH[OF d] aggregateStep_sum[OF Cons.prems, of h t] by simp
qed

lemma aggregateStep_plays:
  "length (snd (aggregateStep h st t)) = length (snd st) + 1"
  by (simp add: aggregateStep_def Let_def)

lemma foldl_aggregate_plays:
  "length (snd (foldl (aggregateStep h) st evs)) = length (snd st) + length evs"
  by (induction evs arbitrary: st) (simp_all add: aggregateStep_plays)

section \<open>Runs on a small library\<close>

lemma fresh_run_ready:
  assumes "fetchAll rm None = (Fetched evs, jr)" and "evs \<noteq> []"
  shows "syncTracks demoHost rm freshPlugin = storeRun demoHost (readyPlugin emptyLibrary jr) 0 evs"
  using fresh_run[OF assms] by (simp add: readyPlugin_def emptyLibrary_def)

lemma ready_run:
  assumes "v ''Music Library'' \<noteq> None" and "v ''Music Library/History'' \<noteq> None"
    and "resolveWatermark demoHost v ''Music Library/History'' = found"
    and "fetchAll rm (case found of Some t \<Rightarrow> Some (t + 1) | None \<Rightarrow> None) = (Fetched evs, jr')"
    and "evs \<noteq> []"
  shows "syncTracks demoHost rm (readyPlugin v jr)
           = storeRun demoHost (readyPlugin v (jr @ jr')) (case found of Some t \<Rightarrow> t | None \<Rightarrow> 0) evs"
proof -
  have t: "trim ''Music Library/History'' \<noteq> []" by code_simp
  have c: "apiKey (settings (readyPlugin v jr)) \<noteq> []" "username (settings (readyPlugin v jr)) \<noteq> []"
    by (simp_all add: readyPlugin_def demoSettings_def)
  have cf: "createFolder v ''Music Library'' = v"
    using assms(1) by (auto simp: createFolder_def)
  have s: "historyFolderStep demoHost ((readyPlugin v jr)\<lparr>vault := createFolder (vault (readyPlugin v jr))
              (normalizePath demoHost (folder (settings (readyPlugin v jr))))\<rparr>)
           = Some (''Music Library/History'', readyPlugin v jr)"
    using assms(2) t
    by (auto simp: historyFolderStep_def readyPlugin_def demoSettings_def normalizePath_demoHost cf
        Let_def)
  show ?thesis
    using syncTracks_eval[OF c s, of found rm evs jr'] assms(3-5)
    by (simp add: readyPlugin_def)
qed

lemma agg_2005_02_28: "aggregate demoHost [play_2005_02_28] =
   ([(''Artist|Song'', \<lparr>count = 1, latestIso = ''2005-02-28T00:00:00'', latestTs = 1109548800,
        firstIso = ''2005-02-28T00:00:00'', firstTs = 1109548800, album = [], coverUrl = [],
        artist = ''Artist'', name = ''Song'', fileName = ''Artist - Song.md''\<rparr>)],
    [\<lparr>hp_fileName = ''Artist - Song.md'', dateIso = ''2005-02-28T00:00:00'', ts = 1109548800\<rparr>])"
  by code_simp

lemma linkName_song: "linkName ''Artist - Song.md'' = ''Artist - Song''"
  by code_simp

lemma new_history_2005_02_28:
  "\<not> str_includes (heading @ [nl, nl]) (historyEntry ''Artist - Song'' ''2005-02-28T00:00:00'')"
  "insertEntry (heading @ [nl, nl]) (historyEntry ''Artist - Song'' ''2005-02-28T00:00:00'')
     = historyLog [songEntry ''2005-02-28T00:00:00'']"
  by code_simp+

lemmas store_defs = storeRun_def sortPlays_def normalizePath_demoHost appendToHistory_def
  historyFolderOf_def historyPath_def demoSettings_def createFolder_def readyPlugin_def
  emptyLibrary_def trulyNewTracks_def filter_ts_def Let_def

lemma trim_history_folder: "trim ''Music Library/History'' \<noteq> []"
  by code_simp

lemma buildNewTrackContent_ts:
  "buildNewTrackContent (g\<lparr>latestTs := a, firstTs := b\<rparr>) url = buildNewTrackContent g url"
  by (simp add: buildNewTrackContent_def)

lemma songRecord_eq:
  "buildNewTrackContent
       \<lparr>count = n, latestIso = last_at, latestTs = a, firstIso = first_at, firstTs = b,
        album = [], coverUrl = [], artist = ''Artist'', name = ''Song'',
        fileName = ''Artist - Song.md''\<rparr>
       (buildLastFmUrl ''Artist'' ''Song'') = songRecord n first_at last_at"
  by (simp add: buildNewTrackContent_def songRecord_def)

lemma first_run_2005:
  "syncTracks demoHost (onePage [play_2005_02_28]) freshPlugin
   = (Summary 1 1 1 0, readyPlugin library_2005 [Request 1 None])"
proof -
  have f: "fetchAll (onePage [play_2005_02_28]) None = (Fetched [play_2005_02_28], [Request 1 None])"
    by code_simp
  have u: "t_uts play_2005_02_28 = Some 1109548800"
    by (simp add: play_2005_02_28_def mkTrack_def)
  show ?thesis
    unfolding fresh_run_ready[OF f list.distinct(2)]
    by (simp add: store_defs u agg_2005_02_28 linkName_song new_history_2005_02_28 songRecord_eq
        trim_history_folder library_2005_def del: One_nat_def)
qed

lemma library_2005_folders:
  "library_2005 ''Music Library'' \<noteq> None" "library_2005 ''Music Library/History'' \<noteq> None"
  by (simp_all add: library_2005_def emptyLibrary_def)

lemma library_2005_watermark:
  "resolveWatermark demoHost library_2005 ''Music Library/History'' = None"
  by code_simp

lemma update_2005_same:
  "updateTrackContent (songRecord 1 ''2005-02-28T00:00:00'' ''2005-02-28T00:00:00'') 1 ''2005-02-28T00:00:00''
     = songRecord 2 ''2005-02-28T00:00:00'' ''2005-02-28T00:00:00''"
  by code_simp

lemma history_2005_has_entry:
  "str_includes (historyLog [songEntry ''2005-02-28T00:00:00''])
     (historyEntry ''Artist - Song'' ''2005-02-28T00:00:00'')"
  by code_simp

lemma second_run_2005_same:
  "syncTracks demoHost (onePage [play_2005_02_28]) (readyPlugin library_2005 [Request 1 None])
   = (Summary 1 1 0 1,
      readyPlugin (library_2005(''Music Library/Artist - Song.md'' \<mapsto>
               TFile (songRecord 2 ''2005-02-28T00:00:00'' ''2005-02-28T00:00:00'')))
        [Request 1 None, Request 1 None])"
proof -
  have f: "fetchAll (onePage [play_2005_02_28]) (case None of Some t \<Rightarrow> Some (t + 1) | None \<Rightarrow> None)
       = (Fetched [play_2005_02_28], [Request 1 None])"
    by code_simp
  have u: "t_uts play_2005_02_28 = Some 1109548800"
    by (simp add: play_2005_02_28_def mkTrack_def)
  show ?thesis
    unfolding ready_run[OF library_2005_folders library_2005_watermark f list.distinct(2)]
    by (simp add: store_defs u agg_2005_02_28 linkName_song library_2005_def
        update_2005_same history_2005_has_entry trim_history_folder del: One_nat_def)
qed

lemma agg_2005_02_27: "aggregate demoHost [play_2005_02_27] =
   ([(''Artist|Song'', \<lparr>count = 1, latestIso = ''2005-02-27T00:00:00'', latestTs = 1109462400,
        firstIso = ''2005-02-27T00:00:00'', firstTs = 1109462400, album = [], coverUrl = [],
        artist = ''Artist'', name = ''Song'', fileName = ''Artist - Song.md''\<rparr>)],
    [\<lparr>hp_fileName = ''Artist - Song.md'', dateIso = ''2005-02-27T00:00:00'', ts = 1109462400\<rparr>])"
  by code_simp

lemma update_2005_older:
  "updateTrackContent (songRecord 1 ''2005-02-28T00:00:00'' ''2005-02-28T00:00:00'') 1 ''2005-02-27T00:00:00''
     = songRecord 2 ''2005-02-28T00:00:00'' ''2005-02-27T00:00:00''"
  by code_simp

lemma history_2005_older:
  "\<not> str_includes (historyLog [songEntry ''2005-02-28T00:00:00''])
     (historyEntry ''Artist - Song'' ''2005-02-27T00:00:00'')"
  "insertEntry (historyLog [songEntry ''2005-02-28T00:00:00''])
     (historyEntry ''Artist - Song'' ''2005-02-27T00:00:00'')
    = historyLog [songEntry ''2005-02-27T00:00:00'', songEntry ''2005-02-28T00:00:00'']"
  by code_simp+

lemma second_run_2005_older:
  "syncTracks demoHost (onePage [play_2005_02_27]) (readyPlugin library_2005 [Request 1 None])
   = (Summary 1 1 0 1,
      readyPlugin (library_2005
          (''Music Library/Artist - Song.md'' \<mapsto>
               TFile (songRecord 2 ''2005-02-28T00:00:00'' ''2005-02-27T00:00:00''),
           ''Music Library/History/History-2005.md'' \<mapsto>
               TFile (historyLog [songEntry ''2005-02-27T00:00:00'', songEntry ''2005-02-28T00:00:00''])))
        [Request 1 None, Request 1 None])"
proof -
  have f: "fetchAll (onePage [play_2005_02_27]) (case None of Some t \<Rightarrow> Some (t + 1) | None \<Rightarrow> None)
       = (Fetched [play_2005_02_27], [Request 1 None])"
    by code_simp
  have u: "t_uts play_2005_02_27 = Some 1109462400"
    by (simp add: play_2005_02_27_def mkTrack_def)
  show ?thesis
    unfolding ready_run[OF library_2005_folders library_2005_watermark f list.distinct(2)]
    by (simp add: store_defs u agg_2005_02_27 linkName_song library_2005_def
        update_2005_older history_2005_older trim_history_folder del: One_nat_def)
qed

lemma agg_2026_01_01: "aggregate demoHost [play_2026_01_01] =
   ([(''Artist|Song'', \<lparr>count = 1, latestIso = ''2026-01-01T00:00:00'', latestTs = 1767225600,
        firstIso = ''2026-01-01T00:00:00'', firstTs = 1767225600, album = [], coverUrl = [],
        artist = ''Artist'', name = ''Song'', fileName = ''Artist - Song.md''\<rparr>)],
    [\<lparr>hp_fileName = ''Artist - Song.md'', dateIso = ''2026-01-01T00:00:00'', ts = 1767225600\<rparr>])"
  by code_simp

lemma new_history_2026_01_01:
  "\<not> str_includes (heading @ [nl, nl]) (historyEntry ''Artist - Song'' ''2026-01-01T00:00:00'')"
  "insertEntry (heading @ [nl, nl]) (historyEntry ''Artist - Song'' ''2026-01-01T00:00:00'')
     = historyLog [songEntry ''2026-01-01T00:00:00'']"
  by code_simp+

lemma first_run_2026:
  "syncTracks demoHost (onePage [play_2026_01_01]) freshPlugin
   = (Summary 1 1 1 0, readyPlugin library_2026 [Request 1 None])"
proof -
  have f: "fetchAll (onePage [play_2026_01_01]) None = (Fetched [play_2026_01_01], [Request 1 None])"
    by code_simp
  have u: "t_uts play_2026_01_01 = Some 1767225600"
    by (simp add: play_2026_01_01_def mkTrack_def)
  show ?thesis
    unfolding fresh_run_ready[OF f list.distinct(2)]
    by (simp add: store_defs u agg_2026_01_01 linkName_song new_history_2026_01_01 songRecord_eq
        trim_history_folder library_2026_def del: One_nat_def)
qed

lemma library_2026_folders:
  "library_2026 ''Music Library'' \<noteq> None" "library_2026 ''Music Library/History'' \<noteq> None"
  by (simp_all add: library_2026_def emptyLibrary_def)

lemma library_2026_watermark:
  "resolveWatermark demoHost library_2026 ''Music Library/History'' = Some 1767225600"
  by code_simp

lemma agg_2026_01_02: "aggregate demoHost [play_2026_01_02] =
   ([(''Artist|Song'', \<lparr>count = 1, latestIso = ''2026-01-02T00:00:00'', latestTs = 1767312000,
        firstIso = ''2026-01-02T00:00:00'', firstTs = 1767312000, album = [], coverUrl = [],
        artist = ''Artist'', name = ''Song'', fileName = ''Artist - Song.md''\<rparr>)],
    [\<lparr>hp_fileName = ''Artist - Song.md'', dateIso = ''2026-01-02T00:00:00'', ts = 1767312000\<rparr>])"
  by code_simp

lemma update_2026_next:
  "updateTrackContent (songRecord 1 ''2026-01-01T00:00:00'' ''2026-01-01T00:00:00'') 1 ''2026-01-02T00:00:00''
     = songRecord 2 ''2026-01-01T00:00:00'' ''2026-01-02T00:00:00''"
  by code_simp

lemma history_2026_next:
  "\<not> str_includes (historyLog [songEntry ''2026-01-01T00:00:00''])
     (historyEntry ''Artist - Song'' ''2026-01-02T00:00:00'')"
  "insertEntry (historyLog [songEntry ''2026-01-01T00:00:00''])
     (historyEntry ''Artist - Song'' ''2026-01-02T00:00:00'')
    = historyLog [songEntry ''2026-01-02T00:00:00'', songEntry ''2026-01-01T00:00:00'']"
  by code_simp+

lemma second_run_2026_next:
  "syncTracks demoHost (onePage [play_2026_01_02]) (readyPlugin library_2026 [Request 1 None])
   = (Summary 1 1 0 1,
      readyPlugin (library_2026
          (''Music Library/Artist - Song.md'' \<mapsto>
               TFile (songRecord 2 ''2026-01-01T00:00:00'' ''2026-01-02T00:00:00''),
           ''Music Library/History/History-2026.md'' \<mapsto>
               TFile (historyLog [songEntry ''2026-01-02T00:00:00'', songEntry ''2026-01-01T00:00:00''])))
        [Request 1 None, Request 1 (Some 1767225601)])"
proof -
  have f: "fetchAll (onePage [play_2026_01_02])
             (case Some 1767225600 of Some t \<Rightarrow> Some (t + 1) | None \<Rightarrow> None)
       = (Fetched [play_2026_01_02], [Request 1 (Some 1767225601)])"
    by code_simp
  have u: "t_uts play_2026_01_02 = Some 1767312000"
    by (simp add: play_2026_01_02_def mkTrack_def)
  show ?thesis
    unfolding ready_run[OF library_2026_folders library_2026_watermark f list.distinct(2)]
    by (simp add: store_defs u agg_2026_01_02 linkName_song library_2026_def
        update_2026_next history_2026_next trim_history_folder del: One_nat_def)
qed

lemma ready_step:
  assumes "v ''Music Library'' \<noteq> None" and "v ''Music Library/History'' \<noteq> None"
  shows "historyFolderStep demoHost ((readyPlugin v jr)\<lparr>vault := createFolder (vault (readyPlugin v jr))
              (normalizePath demoHost (folder (settings (readyPlugin v jr))))\<rparr>)
           = Some (''Music Library/History'', readyPlugin v jr)"
proof -
  have cf: "createFolder v ''Music Library'' = v"
    using assms(1) by (auto simp: createFolder_def)
  show ?thesis
    using assms(2) trim_history_folder
    by (auto simp: historyFolderStep_def readyPlugin_def demoSettings_def normalizePath_demoHost cf
        Let_def)
qed

lemma agg_three: "aggregate demoHost
     [mkTrack ''Artist'' ''Song'' (Some 1767312001), mkTrack ''Artist'' ''Song'' (Some 1767312002),
      mkTrack ''Artist'' ''Song'' (Some 1767312003)] =
   ([(''Artist|Song'', \<lparr>count = 3, latestIso = ''2026-01-02T00:00:03'', latestTs = 1767312003,
        firstIso = ''2026-01-02T00:00:01'', firstTs = 1767312001, album = [], coverUrl = [],
        artist = ''Artist'', name = ''Song'', fileName = ''Artist - Song.md''\<rparr>)],
    [\<lparr>hp_fileName = ''Artist - Song.md'', dateIso = ''2026-01-02T00:00:01'', ts = 1767312001\<rparr>,
     \<lparr>hp_fileName = ''Artist - Song.md'', dateIso = ''2026-01-02T00:00:02'', ts = 1767312002\<rparr>,
     \<lparr>hp_fileName = ''Artist - Song.md'', dateIso = ''2026-01-02T00:00:03'', ts = 1767312003\<rparr>])"
  by code_simp

lemma update_three:
  "updateTrackContent (songRecord 1 ''2026-01-01T00:00:00'' ''2026-01-01T00:00:00'') 3 ''2026-01-02T00:00:03''
     = songRecord 4 ''2026-01-01T00:00:00'' ''2026-01-02T00:00:03''"
  by code_simp

lemma history_three:
  "\<not> str_includes (historyLog [songEntry ''2026-01-01T00:00:00''])
     (historyEntry ''Artist - Song'' ''2026-01-02T00:00:01'')"
  "insertEntry (historyLog [songEntry ''2026-01-01T00:00:00''])
     (historyEntry ''Artist - Song'' ''2026-01-02T00:00:01'')
    = historyLog [songEntry ''2026-01-02T00:00:01'', songEntry ''2026-01-01T00:00:00'']"
  "\<not> str_includes (historyLog [songEntry ''2026-01-02T00:00:01'', songEntry ''2026-01-01T00:00:00''])
     (historyEntry ''Artist - Song'' ''2026-01-02T00:00:02'')"
  "insertEntry (historyLog [songEntry ''2026-01-02T00:00:01'', songEntry ''2026-01-01T00:00:00''])
     (historyEntry ''Artist - Song'' ''2026-01-02T00:00:02'')
    = historyLog [songEntry ''2026-01-02T00:00:02'', songEntry ''2026-01-02T00:00:01'',
        songEntry ''2026-01-01T00:00:00'']"
  "\<not> str_includes (historyLog [songEntry ''2026-01-02T00:00:02'', songEntry ''2026-01-02T00:00:01'',
        songEntry ''2026-01-01T00:00:00''])
     (historyEntry ''Artist - Song'' ''2026-01-02T00:00:03'')"
  "insertEntry (historyLog [songEntry ''2026-01-02T00:00:02'', songEntry ''2026-01-02T00:00:01'',
        songEntry ''2026-01-01T00:00:00''])
     (historyEntry ''Artist - Song'' ''2026-01-02T00:00:03'')
    = historyLog [songEntry ''2026-01-02T00:00:03'', songEntry ''2026-01-02T00:00:02'',
        songEntry ''2026-01-02T00:00:01'', songEntry ''2026-01-01T00:00:00'']"
  by code_simp+

lemma store_three:
  "storeRun demoHost (readyPlugin library_2026 jr) 1767225600
     [mkTrack ''Artist'' ''Song'' (Some 1767312001), mkTrack ''Artist'' ''Song'' (Some 1767312002),
      mkTrack ''Artist'' ''Song'' (Some 1767312003)]
   = (Summary 3 3 0 1,
      readyPlugin (library_2026
          (''Music Library/Artist - Song.md'' \<mapsto>
               TFile (songRecord 4 ''2026-01-01T00:00:00'' ''2026-01-02T00:00:03''),
           ''Music Library/History/History-2026.md'' \<mapsto>
               TFile (historyLog [songEntry ''2026-01-02T00:00:03'', songEntry ''2026-01-02T00:00:02'',
                  songEntry ''2026-01-02T00:00:01'', songEntry ''2026-01-01T00:00:00''])))
        jr)"
  by (simp add: store_defs mkTrack_def agg_three[unfolded mkTrack_def] linkName_song library_2026_def
        update_three history_three trim_history_folder del: One_nat_def)

section \<open>The claims\<close>


text \<open>
  C10, as the code has it. A setting that is not empty but blank (white space only) is
  taken as no setting: on an empty vault the run with the setting \<^verbatim>\<open>" "\<close> creates the
  folder \<^verbatim>\<open>History\<close>, persists its path and sends the request. And a file at the path of
  the setting passes the check: no folder exists there, yet the run goes on to the
  request.
\<close>

theorem history_folder_check_passed:
  "historyFolderPath (settings spacePlugin) \<noteq> []
   \<and> vault spacePlugin (normalizePath demoHost (historyFolderPath (settings spacePlugin))) = None
   \<and> syncTracks demoHost (onePage []) spacePlugin
       = (NoNewTracks,
          \<lparr>settings = demoSettings\<lparr>historyFolderPath := ''Music Library/History''\<rparr>,
           vault = [''Music Library'' \<mapsto> TFolder, ''Music Library/History'' \<mapsto> TFolder],
           saved = Some (demoSettings\<lparr>historyFolderPath := ''Music Library/History''\<rparr>),
           journal = [Request 1 None]\<rparr>)
   \<and> historyFolderPath (settings filePlugin) \<noteq> []
   \<and> vault filePlugin (normalizePath demoHost (historyFolderPath (settings filePlugin)))
       = Some (TFile ''notes'')
   \<and> syncTracks demoHost (onePage []) filePlugin
       = (NoNewTracks,
          filePlugin\<lparr>vault := [''Archive'' \<mapsto> TFile ''notes'', ''Music Library'' \<mapsto> TFolder],
                     journal := [Request 1 None]\<rparr>)"
proof -
  have f: "fetchAll (onePage []) None = (Fetched [], [Request 1 None])" by code_simp
  have t: "trim '' '' = []" "trim ''Archive'' \<noteq> []" by code_simp+
  have cS: "apiKey (settings spacePlugin) \<noteq> []" "username (settings spacePlugin) \<noteq> []"
    by (simp_all add: spacePlugin_def freshPlugin_def demoSettings_def)
  have cF: "apiKey (settings filePlugin) \<noteq> []" "username (settings filePlugin) \<noteq> []"
    by (simp_all add: filePlugin_def freshPlugin_def demoSettings_def)
  have sS: "historyFolderStep demoHost (spacePlugin\<lparr>vault := createFolder (vault spacePlugin)
       (normalizePath demoHost (folder (settings spacePlugin)))\<rparr>)
     = Some (''Music Library/History'',
       \<lparr>settings = demoSettings\<lparr>historyFolderPath := ''Music Library/History''\<rparr>,
        vault = [''Music Library'' \<mapsto> TFolder, ''Music Library/History'' \<mapsto> TFolder],
        saved = Some (demoSettings\<lparr>historyFolderPath := ''Music Library/History''\<rparr>),
        journal = []\<rparr>)"
    by (simp add: historyFolderStep_def spacePlugin_def freshPlugin_def demoSettings_def
        normalizePath_demoHost t createFolder_def saveSettings_def Let_def)
  have sF: "historyFolderStep demoHost (filePlugin\<lparr>vault := createFolder (vault filePlugin)
       (normalizePath demoHost (folder (settings filePlugin)))\<rparr>)
     = Some (''Archive'',
         filePlugin\<lparr>vault := [''Archive'' \<mapsto> TFile ''notes'', ''Music Library'' \<mapsto> TFolder]\<rparr>)"
    by (simp add: historyFolderStep_def filePlugin_def freshPlugin_def demoSettings_def
        normalizePath_demoHost t createFolder_def Let_def)
  have wF: "resolveWatermark demoHost [''Archive'' \<mapsto> TFile ''notes'', ''Music Library'' \<mapsto> TFolder]
      ''Archive'' = None"
    by code_simp
  have rS: "syncTracks demoHost (onePage []) spacePlugin
       = (NoNewTracks,
          \<lparr>settings = demoSettings\<lparr>historyFolderPath := ''Music Library/History''\<rparr>,
           vault = [''Music Library'' \<mapsto> TFolder, ''Music Library/History'' \<mapsto> TFolder],
           saved = Some (demoSettings\<lparr>historyFolderPath := ''Music Library/History''\<rparr>),
           journal = [Request 1 None]\<rparr>)"
    unfolding syncTracks_unfold[OF cS sS]
    by (simp add: f fresh_watermark)
  have rF: "syncTracks demoHost (onePage []) filePlugin
       = (NoNewTracks,
          filePlugin\<lparr>vault := [''Archive'' \<mapsto> TFile ''notes'', ''Music Library'' \<mapsto> TFolder],
                     journal := [Request 1 None]\<rparr>)"
    unfolding syncTracks_unfold[OF cF sF]
    by (simp add: f wF) (simp add: filePlugin_def freshPlugin_def)
  show ?thesis
    using rS rF
    by (simp add: spacePlugin_def filePlugin_def freshPlugin_def demoSettings_def normalizePath_demoHost)
qed

text \<open>
  C10, amended. In a run with credentials, the run ends with the notice that the history
  folder is missing exactly when the setting is not blank (something is left of it once
  the white space at both ends is trimmed) and the vault has nothing, neither folder nor
  file, at its path at the moment of the check: the path is free and is not the notes
  folder, which the run has just created. The run then has made no request; the files,
  the settings and what is persisted are as they were, and the vault differs at most by
  the notes folder. When the setting is blank, the folder \<^verbatim>\<open>History\<close> under the notes
  folder is created (if its path was free) and the derived path is stored in the
  settings and persisted.
\<close>

theorem history_folder_branch:
  assumes "apiKey (settings p) \<noteq> []" and "username (settings p) \<noteq> []"
  shows "((fst (syncTracks h rm p) = HistoryFolderMissing)
            = (trim (historyFolderPath (settings p)) \<noteq> [] \<and>
               vault p (normalizePath h (historyFolderPath (settings p))) = None \<and>
               normalizePath h (historyFolderPath (settings p)) \<noteq> normalizePath h (folder (settings p))))
       \<and> (trim (historyFolderPath (settings p)) \<noteq> [] \<and>
          vault p (normalizePath h (historyFolderPath (settings p))) = None \<and>
          normalizePath h (historyFolderPath (settings p)) \<noteq> normalizePath h (folder (settings p))
          \<longrightarrow> syncTracks h rm p
                = (HistoryFolderMissing,
                   p\<lparr>vault := createFolder (vault p) (normalizePath h (folder (settings p)))\<rparr>)
            \<and> fst (syncTracks h rm p) = HistoryFolderMissing
            \<and> journal (snd (syncTracks h rm p)) = journal p
            \<and> files_of (vault (snd (syncTracks h rm p))) = files_of (vault p)
            \<and> settings (snd (syncTracks h rm p)) = settings p
            \<and> saved (snd (syncTracks h rm p)) = saved p)
       \<and> (trim (historyFolderPath (settings p)) = [] \<longrightarrow>
            (vault p (normalizePath h (folder (settings p) @ ''/History'')) = None
               \<longrightarrow> vault (snd (syncTracks h rm p)) (normalizePath h (folder (settings p) @ ''/History''))
                     = Some TFolder)
            \<and> historyFolderPath (settings (snd (syncTracks h rm p)))
                 = normalizePath h (folder (settings p) @ ''/History'')
            \<and> saved (snd (syncTracks h rm p)) = Some (settings (snd (syncTracks h rm p))))"
proof (intro conjI impI)
  let ?p0 = "p\<lparr>vault := createFolder (vault p) (normalizePath h (folder (settings p)))\<rparr>"
  let ?missing = "trim (historyFolderPath (settings p)) \<noteq> [] \<and>
          vault p (normalizePath h (historyFolderPath (settings p))) = None \<and>
          normalizePath h (historyFolderPath (settings p)) \<noteq> normalizePath h (folder (settings p))"
  have m: "syncTracks h rm p = (HistoryFolderMissing, ?p0)" if a: ?missing
  proof -
    from a have "historyFolderStep h ?p0 = None"
      by (simp add: historyFolderStep_def Let_def createFolder_def)
    then show ?thesis
      using assms by (simp add: syncTracks_def Let_def)
  qed
  have n: "fst (syncTracks h rm p) \<noteq> HistoryFolderMissing" if a: "\<not> ?missing"
  proof -
    from a have "historyFolderStep h ?p0 \<noteq> None"
      by (auto simp: historyFolderStep_def Let_def createFolder_def)
    then obtain hf p1 where "historyFolderStep h ?p0 = Some (hf, p1)" by auto
    then show ?thesis by (rule syncTracks_past_check[OF assms])
  qed
  show "(fst (syncTracks h rm p) = HistoryFolderMissing) = ?missing"
    using m n by (cases ?missing) simp_all
  {
    assume a: ?missing
    note e = m[OF a]
    show "syncTracks h rm p = (HistoryFolderMissing, ?p0)" by (rule e)
    show "fst (syncTracks h rm p) = HistoryFolderMissing" using e by simp
    show "journal (snd (syncTracks h rm p)) = journal p" using e by simp
    show "files_of (vault (snd (syncTracks h rm p))) = files_of (vault p)"
      using e by (simp add: files_of_createFolder)
    show "settings (snd (syncTracks h rm p)) = settings p" using e by simp
    show "saved (snd (syncTracks h rm p)) = saved p" using e by simp
  }
  let ?hf = "normalizePath h (folder (settings p) @ ''/History'')"
  let ?p1 = "saveSettings (?p0\<lparr>vault := createFolder (vault ?p0) ?hf, settings := (settings p)\<lparr>historyFolderPath := ?hf\<rparr>\<rparr>)"
  {
    assume b: "trim (historyFolderPath (settings p)) = []"
    then have st: "historyFolderStep h ?p0 = Some (?hf, ?p1)"
      by (simp add: historyFolderStep_def Let_def)
    note u = syncTracks_unfold[OF assms st, of rm]
    have keep: "settings (snd (syncTracks h rm p)) = settings ?p1
        \<and> saved (snd (syncTracks h rm p)) = saved ?p1"
      unfolding u Let_def
      by (simp add: storeRun_settings split: fetched.splits)
    show "historyFolderPath (settings (snd (syncTracks h rm p))) = ?hf"
      using keep by (simp add: saveSettings_def)
    show "saved (snd (syncTracks h rm p)) = Some (settings (snd (syncTracks h rm p)))"
      using keep by (simp add: saveSettings_def)
    {
      assume c: "vault p ?hf = None"
      have v1: "vault ?p1 ?hf = Some TFolder"
        using c by (simp add: saveSettings_def createFolder_def)
      show "vault (snd (syncTracks h rm p)) ?hf = Some TFolder"
        unfolding u Let_def
        using v1 by (simp add: storeRun_folder split: fetched.splits)
    }
  }
qed

theorem history_folder_branch_witness:
  "apiKey (settings freshPlugin) \<noteq> [] \<and> username (settings freshPlugin) \<noteq> []
   \<and> trim ''Archive'' \<noteq> [] \<and> vault freshPlugin (normalizePath demoHost ''Archive'') = None
   \<and> normalizePath demoHost ''Archive'' \<noteq> normalizePath demoHost (folder (settings freshPlugin))
   \<and> syncTracks demoHost (onePage [])
          (freshPlugin\<lparr>settings := demoSettings\<lparr>historyFolderPath := ''Archive''\<rparr>\<rparr>)
       = (HistoryFolderMissing,
          freshPlugin\<lparr>settings := demoSettings\<lparr>historyFolderPath := ''Archive''\<rparr>,
                      vault := [''Music Library'' \<mapsto> TFolder]\<rparr>)
   \<and> journal (snd (syncTracks demoHost (onePage [])
          (freshPlugin\<lparr>settings := demoSettings\<lparr>historyFolderPath := ''Archive''\<rparr>\<rparr>))) = []
   \<and> trim (historyFolderPath (settings freshPlugin)) = []
   \<and> vault freshPlugin (normalizePath demoHost (folder (settings freshPlugin) @ ''/History'')) = None
   \<and> vault (snd (syncTracks demoHost (onePage []) freshPlugin)) ''Music Library/History'' = Some TFolder
   \<and> saved (snd (syncTracks demoHost (onePage []) freshPlugin))
       = Some (demoSettings\<lparr>historyFolderPath := ''Music Library/History''\<rparr>)"
proof -
  let ?pA = "freshPlugin\<lparr>settings := demoSettings\<lparr>historyFolderPath := ''Archive''\<rparr>\<rparr>"
  have t: "trim ''Archive'' \<noteq> []" by code_simp
  have cA: "apiKey (settings ?pA) \<noteq> []" "username (settings ?pA) \<noteq> []"
    by (simp_all add: freshPlugin_def demoSettings_def)
  have cB: "apiKey (settings freshPlugin) \<noteq> []" "username (settings freshPlugin) \<noteq> []"
    by (simp_all add: freshPlugin_def demoSettings_def)
  have hA: "trim (historyFolderPath (settings ?pA)) \<noteq> [] \<and>
          vault ?pA (normalizePath demoHost (historyFolderPath (settings ?pA))) = None \<and>
          normalizePath demoHost (historyFolderPath (settings ?pA)) \<noteq> normalizePath demoHost (folder (settings ?pA))"
    using t by (simp add: freshPlugin_def demoSettings_def normalizePath_demoHost)
  have hB: "trim (historyFolderPath (settings freshPlugin)) = []"
    "vault freshPlugin (normalizePath demoHost (folder (settings freshPlugin) @ ''/History'')) = None"
    by (simp_all add: freshPlugin_def demoSettings_def trim_Nil)
  from history_folder_branch[OF cA, of demoHost "onePage []"] hA
  have rA: "syncTracks demoHost (onePage []) ?pA
      = (HistoryFolderMissing, ?pA\<lparr>vault := createFolder (vault ?pA)
           (normalizePath demoHost (folder (settings ?pA)))\<rparr>)"
    "journal (snd (syncTracks demoHost (onePage []) ?pA)) = journal ?pA"
    by blast+
  from history_folder_branch[OF cB, of demoHost "onePage []"] hB
  have rB: "vault (snd (syncTracks demoHost (onePage []) freshPlugin))
              (normalizePath demoHost (folder (settings freshPlugin) @ ''/History'')) = Some TFolder"
    "historyFolderPath (settings (snd (syncTracks demoHost (onePage []) freshPlugin)))
                 = normalizePath demoHost (folder (settings freshPlugin) @ ''/History'')"
    "saved (snd (syncTracks demoHost (onePage []) freshPlugin))
       = Some (settings (snd (syncTracks demoHost (onePage []) freshPlugin)))"
    by blast+
  have sB: "settings (snd (syncTracks demoHost (onePage []) freshPlugin))
      = demoSettings\<lparr>historyFolderPath := ''Music Library/History''\<rparr>"
  proof -
    have "syncTracks demoHost (onePage []) freshPlugin = (NoNewTracks,
       \<lparr>settings = demoSettings\<lparr>historyFolderPath := ''Music Library/History''\<rparr>,
        vault = [''Music Library'' \<mapsto> TFolder, ''Music Library/History'' \<mapsto> TFolder],
        saved = Some (demoSettings\<lparr>historyFolderPath := ''Music Library/History''\<rparr>),
        journal = [Request 1 None]\<rparr>)"
    proof -
      have f: "fetchAll (onePage []) None = (Fetched [], [Request 1 None])" by code_simp
      show ?thesis
        unfolding syncTracks_unfold[OF cB fresh_step]
        by (simp add: f fresh_watermark)
    qed
    then show ?thesis by simp
  qed
  show ?thesis
    using t cB hA hB rA rB sB
    by (simp add: freshPlugin_def demoSettings_def normalizePath_demoHost createFolder_def)
qed

text \<open>
  C9. A track without a date does not reach the grouping loop: the filter reads 0 as
  its timestamp, so on a vault without history (watermark 0) it is dropped, the run
  ends with "All fetched tracks already recorded" and writes nothing. The fallback
  \<^verbatim>\<open>Math.floor(Date.now() / 1000)\<close> of the grouping loop is never applied to it.
\<close>

theorem dateless_event_dropped:
  "fst (syncTracks demoHost (onePage [mkTrack ''Artist'' ''Song'' None]) freshPlugin) = AllRecorded
   \<and> files_of (vault (snd (syncTracks demoHost (onePage [mkTrack ''Artist'' ''Song'' None]) freshPlugin)))
       = files_of (vault freshPlugin)"
proof -
  have f: "fetchAll (onePage [mkTrack ''Artist'' ''Song'' None]) None
             = (Fetched [mkTrack ''Artist'' ''Song'' None], [Request 1 None])"
    by code_simp
  have "fst (syncTracks demoHost (onePage [mkTrack ''Artist'' ''Song'' None]) freshPlugin) = AllRecorded"
    unfolding fresh_run[OF f list.distinct(2)]
    by (simp add: storeRun_def trulyNewTracks_def filter_ts_def mkTrack_def)
  then show ?thesis using syncTracks_no_write[of demoHost _ freshPlugin] by simp
qed

text \<open>
  C7. On a record whose \<^verbatim>\<open>play_count\<close> does not parse, \<open>updateTrackContent\<close> computes the
  new count (0 + 2) but writes it nowhere: the pattern of the \<^verbatim>\<open>replace\<close> is the one that
  did not match. Only \<^verbatim>\<open>last_listened_at\<close> changes, and the result still has no count
  that parses.
\<close>

theorem unparsable_count_not_written:
  "updateTrackContent
     (''play_count: '' @ [quote] @ ''many'' @ [quote, nl] @ ''first_listened_at: 2024-01-01T10:00:00'' @ [nl]
        @ ''last_listened_at: 2024-01-01T10:00:00'' @ [nl]) 2 ''2024-03-05T08:30:00''
   = ''play_count: '' @ [quote] @ ''many'' @ [quote, nl] @ ''first_listened_at: 2024-01-01T10:00:00'' @ [nl]
        @ ''last_listened_at: 2024-03-05T08:30:00'' @ [nl]
   \<and> matchPlayCount (''play_count: '' @ [quote] @ ''many'' @ [quote, nl] @ ''first_listened_at: 2024-01-01T10:00:00'' @ [nl]
        @ ''last_listened_at: 2024-03-05T08:30:00'' @ [nl]) = None"
  by code_simp

text \<open>
  C6, as the code has it. The abort does not come before every persisted write: the
  folders and the history-folder setting are set up before the first request. On an
  empty vault with the default settings, a remote that always rejects with status 500
  ends the run with "Sync failed" after three requests and two waits of 5000 ms, and by
  then the notes folder and the folder \<^verbatim>\<open>History\<close> exist and the settings, with the derived
  path, are persisted.
\<close>

theorem abort_after_setup:
  "saved freshPlugin = None
   \<and> vault freshPlugin ''Music Library'' = None
   \<and> vault freshPlugin ''Music Library/History'' = None
   \<and> syncTracks demoHost failingRemote freshPlugin
       = (SyncFailed (Some 500),
          \<lparr>settings = demoSettings\<lparr>historyFolderPath := ''Music Library/History''\<rparr>,
           vault = [''Music Library'' \<mapsto> TFolder, ''Music Library/History'' \<mapsto> TFolder],
           saved = Some (demoSettings\<lparr>historyFolderPath := ''Music Library/History''\<rparr>),
           journal = [Request 1 None, Sleep 5000, Request 1 None, Sleep 5000, Request 1 None]\<rparr>)"
proof -
  have f: "fetchAll failingRemote None
      = (Aborted (Some 500), [Request 1 None, Sleep 5000, Request 1 None, Sleep 5000, Request 1 None])"
    by code_simp
  have c: "apiKey (settings freshPlugin) \<noteq> []" "username (settings freshPlugin) \<noteq> []"
    by (simp_all add: freshPlugin_def demoSettings_def)
  have "syncTracks demoHost failingRemote freshPlugin
       = (SyncFailed (Some 500),
          \<lparr>settings = demoSettings\<lparr>historyFolderPath := ''Music Library/History''\<rparr>,
           vault = [''Music Library'' \<mapsto> TFolder, ''Music Library/History'' \<mapsto> TFolder],
           saved = Some (demoSettings\<lparr>historyFolderPath := ''Music Library/History''\<rparr>),
           journal = [Request 1 None, Sleep 5000, Request 1 None, Sleep 5000, Request 1 None]\<rparr>)"
    unfolding syncTracks_unfold[OF c fresh_step]
    by (simp add: f fresh_watermark)
  then show ?thesis by (simp add: freshPlugin_def)
qed

text \<open>
  C6, amended. A request rejected with status 429 or 500 is made again for the same page
  (same page, same tracks collected so far) after a wait of 30000 ms for 429 and 5000 ms
  for 500, as long as fewer than two retries were used in this run; no run waits more
  than twice. The third rejection of a run, a rejection with any other status and an
  in-band error end the loop with \<open>Aborted\<close>, which carries none of the pages fetched.
  The run then ends with "Sync failed" in the state the set-up of the folders left,
  with the requests and waits made: no record and no history file is created or
  changed, the vault differs from the one before the run at most by the notes folder
  and the history folder, and the settings are those the set-up stored and persisted.
  With a watermark \<open>W\<close>, three pages and page 2 rejected twice with 429 and then answered,
  the run is not aborted: it goes on to the filter and the store writer with the tracks
  of all three pages.
\<close>

theorem fetch_retry_policy:
  "(rm n page frm = Rejects st \<and> transient st \<and> attempts < 2 \<and> int page \<le> totalPages \<longrightarrow>
       fetchLoop rm frm page totalPages attempts acc n jr
         = fetchLoop rm frm page totalPages (attempts + 1) acc (n + 1)
             (jr @ [Request page frm, Sleep (backoff st)]))
   \<and> backoff (Some 500) < backoff (Some 429)
   \<and> length (filter is_backoff (snd (fetchAll rm frm))) \<le> 2
   \<and> (rm n page frm = Rejects st \<and> (\<not> transient st \<or> attempts = 2) \<and> attempts < 3
        \<and> int page \<le> totalPages \<longrightarrow>
       fetchLoop rm frm page totalPages attempts acc n jr = (Aborted st, jr @ [Request page frm]))
   \<and> (rm n page frm = Json d \<and> \<not> no_api_error d \<and> attempts < 3 \<and> int page \<le> totalPages \<longrightarrow>
       fetchLoop rm frm page totalPages attempts acc n jr = (Aborted None, jr @ [Request page frm]))
   \<and> (apiKey (settings p) \<noteq> [] \<and> username (settings p) \<noteq> []
        \<and> historyFolderStep h (p\<lparr>vault := createFolder (vault p) (normalizePath h (folder (settings p)))\<rparr>)
            = Some (hf, p1)
        \<and> fetchAll rm (case resolveWatermark h (vault p1) hf of
                          Some t \<Rightarrow> Some (t + 1) | None \<Rightarrow> None) = (Aborted st, jr') \<longrightarrow>
       syncTracks h rm p = (SyncFailed st, p1\<lparr>journal := journal p1 @ jr'\<rparr>)
       \<and> fst (syncTracks h rm p) = SyncFailed st
       \<and> files_of (vault (snd (syncTracks h rm p))) = files_of (vault p)
       \<and> (q \<noteq> normalizePath h (folder (settings p)) \<and> q \<noteq> hf
            \<longrightarrow> vault (snd (syncTracks h rm p)) q = vault p q))
   \<and> (apiKey (settings p) \<noteq> [] \<and> username (settings p) \<noteq> []
        \<and> historyFolderStep h (p\<lparr>vault := createFolder (vault p) (normalizePath h (folder (settings p)))\<rparr>)
            = Some (hf, p1)
        \<and> resolveWatermark h (vault p1) hf = Some W
        \<and> rm 0 1 (Some (W + 1)) = Json d1 \<and> no_api_error d1 \<and> totalPagesAttr d1 = Some 3 \<and> track d1 \<noteq> []
        \<and> rm 1 2 (Some (W + 1)) = Rejects (Some 429) \<and> rm 2 2 (Some (W + 1)) = Rejects (Some 429)
        \<and> rm 3 2 (Some (W + 1)) = Json d2 \<and> no_api_error d2 \<and> track d2 \<noteq> []
        \<and> rm 4 3 (Some (W + 1)) = Json d3 \<and> no_api_error d3 \<and> track d3 \<noteq> [] \<longrightarrow>
       fetchAll rm (Some (W + 1)) = (Fetched (track d1 @ track d2 @ track d3),
           [Request 1 (Some (W + 1)), Sleep 2000, Request 2 (Some (W + 1)), Sleep 30000,
            Request 2 (Some (W + 1)), Sleep 30000, Request 2 (Some (W + 1)), Sleep 2000,
            Request 3 (Some (W + 1))])
       \<and> syncTracks h rm p
           = storeRun h (p1\<lparr>journal := journal p1 @
               [Request 1 (Some (W + 1)), Sleep 2000, Request 2 (Some (W + 1)), Sleep 30000,
                Request 2 (Some (W + 1)), Sleep 30000, Request 2 (Some (W + 1)), Sleep 2000,
                Request 3 (Some (W + 1))]\<rparr>) W (track d1 @ track d2 @ track d3)
       \<and> fst (syncTracks h rm p) \<noteq> SyncFailed st)"
proof (intro conjI impI)
  show "backoff (Some 500) < backoff (Some 429)" by (simp add: backoff_def)
  show "length (filter is_backoff (snd (fetchAll rm frm))) \<le> 2" by (rule fetchAll_retries)
  {
    assume a: "apiKey (settings p) \<noteq> [] \<and> username (settings p) \<noteq> []
        \<and> historyFolderStep h (p\<lparr>vault := createFolder (vault p) (normalizePath h (folder (settings p)))\<rparr>)
            = Some (hf, p1)
        \<and> fetchAll rm (case resolveWatermark h (vault p1) hf of
                          Some t \<Rightarrow> Some (t + 1) | None \<Rightarrow> None) = (Aborted st, jr')"
    then have e: "syncTracks h rm p = (SyncFailed st, p1\<lparr>journal := journal p1 @ jr'\<rparr>)"
      using syncTracks_aborted[of p h hf p1 rm st jr'] by blast
    show "syncTracks h rm p = (SyncFailed st, p1\<lparr>journal := journal p1 @ jr'\<rparr>)" by (rule e)
    show "fst (syncTracks h rm p) = SyncFailed st" using e by simp
    show "files_of (vault (snd (syncTracks h rm p))) = files_of (vault p)"
      using e a setup_vault(1)[of h p "normalizePath h (folder (settings p))" hf p1] by simp
    show "vault (snd (syncTracks h rm p)) q = vault p q"
      if "q \<noteq> normalizePath h (folder (settings p)) \<and> q \<noteq> hf"
      using e a that setup_vault(2)[of h p "normalizePath h (folder (settings p))" hf p1 q] by simp
  }
  {
    assume a: "apiKey (settings p) \<noteq> [] \<and> username (settings p) \<noteq> []
        \<and> historyFolderStep h (p\<lparr>vault := createFolder (vault p) (normalizePath h (folder (settings p)))\<rparr>)
            = Some (hf, p1)
        \<and> resolveWatermark h (vault p1) hf = Some W
        \<and> rm 0 1 (Some (W + 1)) = Json d1 \<and> no_api_error d1 \<and> totalPagesAttr d1 = Some 3 \<and> track d1 \<noteq> []
        \<and> rm 1 2 (Some (W + 1)) = Rejects (Some 429) \<and> rm 2 2 (Some (W + 1)) = Rejects (Some 429)
        \<and> rm 3 2 (Some (W + 1)) = Json d2 \<and> no_api_error d2 \<and> track d2 \<noteq> []
        \<and> rm 4 3 (Some (W + 1)) = Json d3 \<and> no_api_error d3 \<and> track d3 \<noteq> []"
    show "fetchAll rm (Some (W + 1)) = (Fetched (track d1 @ track d2 @ track d3),
           [Request 1 (Some (W + 1)), Sleep 2000, Request 2 (Some (W + 1)), Sleep 30000,
            Request 2 (Some (W + 1)), Sleep 30000, Request 2 (Some (W + 1)), Sleep 2000,
            Request 3 (Some (W + 1))])"
      using a scenario_B[where rm = rm and w = "W + 1" and ?d1.0 = d1 and ?d2.0 = d2 and ?d3.0 = d3]
      by blast
    have e: "syncTracks h rm p
           = storeRun h (p1\<lparr>journal := journal p1 @
               [Request 1 (Some (W + 1)), Sleep 2000, Request 2 (Some (W + 1)), Sleep 30000,
                Request 2 (Some (W + 1)), Sleep 30000, Request 2 (Some (W + 1)), Sleep 2000,
                Request 3 (Some (W + 1))]\<rparr>) W (track d1 @ track d2 @ track d3)"
      using a syncTracks_scenario_B[where rm = rm and W = W and ?d1.0 = d1 and ?d2.0 = d2
          and ?d3.0 = d3 and p = p and h = h and hf = hf and ?p1.0 = p1]
      by blast
    show "syncTracks h rm p
           = storeRun h (p1\<lparr>journal := journal p1 @
               [Request 1 (Some (W + 1)), Sleep 2000, Request 2 (Some (W + 1)), Sleep 30000,
                Request 2 (Some (W + 1)), Sleep 30000, Request 2 (Some (W + 1)), Sleep 2000,
                Request 3 (Some (W + 1))]\<rparr>) W (track d1 @ track d2 @ track d3)"
      by (rule e)
    show "fst (syncTracks h rm p) \<noteq> SyncFailed st"
      unfolding e by (rule storeRun_not_early(2))
  }
qed (auto simp: fetchLoop_retry fetchLoop_abort fetchLoop_api_error)

theorem fetch_retry_policy_witness:
  "failingRemote 0 1 None = Rejects (Some 500) \<and> transient (Some 500)
   \<and> fetchLoop failingRemote None 1 1 0 [] 0 []
       = fetchLoop failingRemote None 1 1 (0 + 1) [] (0 + 1) ([] @ [Request 1 None, Sleep (backoff (Some 500))])
   \<and> failingRemote 2 1 None = Rejects (Some 500)
   \<and> fetchLoop failingRemote None 1 1 2 [] 2 [] = (Aborted (Some 500), [] @ [Request 1 None])
   \<and> errorRemote 0 1 None = Json \<lparr>api_error = Some 6, totalPagesAttr = None, track = []\<rparr>
   \<and> fetchLoop errorRemote None 1 1 0 [] 0 [] = (Aborted None, [] @ [Request 1 None])
   \<and> fetchAll failingRemote None
       = (Aborted (Some 500), [Request 1 None, Sleep 5000, Request 1 None, Sleep 5000, Request 1 None])
   \<and> syncTracks demoHost failingRemote (readyPlugin library_2005 [])
       = (SyncFailed (Some 500),
          readyPlugin library_2005
            [Request 1 None, Sleep 5000, Request 1 None, Sleep 5000, Request 1 None])
   \<and> resolveWatermark demoHost library_2026 ''Music Library/History'' = Some 1767225600
   \<and> flakyRemote 1 2 (Some (1767225600 + 1)) = Rejects (Some 429)
   \<and> flakyRemote 2 2 (Some (1767225600 + 1)) = Rejects (Some 429)
   \<and> syncTracks demoHost flakyRemote (readyPlugin library_2026 [])
       = (Summary 3 3 0 1,
          readyPlugin (library_2026
            (''Music Library/Artist - Song.md'' \<mapsto>
               TFile (songRecord 4 ''2026-01-01T00:00:00'' ''2026-01-02T00:00:03''),
             ''Music Library/History/History-2026.md'' \<mapsto>
               TFile (historyLog [songEntry ''2026-01-02T00:00:03'', songEntry ''2026-01-02T00:00:02'',
                  songEntry ''2026-01-02T00:00:01'', songEntry ''2026-01-01T00:00:00''])))
            [Request 1 (Some (1767225600 + 1)), Sleep 2000, Request 2 (Some (1767225600 + 1)),
             Sleep 30000, Request 2 (Some (1767225600 + 1)), Sleep 30000,
             Request 2 (Some (1767225600 + 1)), Sleep 2000, Request 3 (Some (1767225600 + 1))])"
proof -
  let ?d = "\<lambda>k. \<lparr>api_error = None, totalPagesAttr = Some 3,
                  track = [mkTrack ''Artist'' ''Song'' (Some k)]\<rparr>"
  have a1: "failingRemote 0 1 None = Rejects (Some 500)" "failingRemote 2 1 None = Rejects (Some 500)"
    by (simp_all add: failingRemote_def)
  have t: "transient (Some 500)" by (simp add: transient_def)
  have e1: "errorRemote 0 1 None = Json \<lparr>api_error = Some 6, totalPagesAttr = None, track = []\<rparr>"
    by (simp add: errorRemote_def)
  have e2: "\<not> no_api_error \<lparr>api_error = Some 6, totalPagesAttr = None, track = []\<rparr>"
    by (simp add: no_api_error_def)
  have f: "fetchAll failingRemote None
      = (Aborted (Some 500), [Request 1 None, Sleep 5000, Request 1 None, Sleep 5000, Request 1 None])"
    by code_simp
  have c5: "apiKey (settings (readyPlugin library_2005 [])) \<noteq> []"
    "username (settings (readyPlugin library_2005 [])) \<noteq> []"
    by (simp_all add: readyPlugin_def demoSettings_def)
  have c6: "apiKey (settings (readyPlugin library_2026 [])) \<noteq> []"
    "username (settings (readyPlugin library_2026 [])) \<noteq> []"
    by (simp_all add: readyPlugin_def demoSettings_def)
  note s5 = ready_step[OF library_2005_folders, of "[]"]
  note s6 = ready_step[OF library_2026_folders, of "[]"]
  have f5: "fetchAll failingRemote (case resolveWatermark demoHost (vault (readyPlugin library_2005 []))
        ''Music Library/History'' of Some t \<Rightarrow> Some (t + 1) | None \<Rightarrow> None)
      = (Aborted (Some 500), [Request 1 None, Sleep 5000, Request 1 None, Sleep 5000, Request 1 None])"
    using f library_2005_watermark by (simp add: readyPlugin_def)
  have w6: "resolveWatermark demoHost (vault (readyPlugin library_2026 [])) ''Music Library/History''
      = Some 1767225600"
    using library_2026_watermark by (simp add: readyPlugin_def)
  have b: "flakyRemote 0 1 (Some (1767225600 + 1)) = Json (?d 1767312001)"
    "flakyRemote 1 2 (Some (1767225600 + 1)) = Rejects (Some 429)"
    "flakyRemote 2 2 (Some (1767225600 + 1)) = Rejects (Some 429)"
    "flakyRemote 3 2 (Some (1767225600 + 1)) = Json (?d 1767312002)"
    "flakyRemote 4 3 (Some (1767225600 + 1)) = Json (?d 1767312003)"
    by (simp_all add: flakyRemote_def)
  have n: "no_api_error (?d k)" "totalPagesAttr (?d k) = Some 3" "track (?d k) \<noteq> []" for k
    by (simp_all add: no_api_error_def)
  note A = fetch_retry_policy[of failingRemote 0 1 None "Some 500" 0 1 "[]" "[]", THEN conjunct1]
  note A' = fetch_retry_policy[where rm = failingRemote and st = "Some 500"
      and p = "readyPlugin library_2005 []" and h = demoHost and hf = "''Music Library/History''"
      and ?p1.0 = "readyPlugin library_2005 []"
      and jr' = "[Request 1 None, Sleep 5000, Request 1 None, Sleep 5000, Request 1 None]",
      THEN conjunct2, THEN conjunct2, THEN conjunct2, THEN conjunct2, THEN conjunct2, THEN conjunct1]
  note B = fetch_retry_policy[of failingRemote 2 1 None "Some 500" 2 1 "[]" "[]",
      THEN conjunct2, THEN conjunct2, THEN conjunct2, THEN conjunct1]
  note C = fetch_retry_policy[of errorRemote 0 1 None _ 0 1 "[]" "[]"
      "\<lparr>api_error = Some 6, totalPagesAttr = None, track = []\<rparr>",
      THEN conjunct2, THEN conjunct2, THEN conjunct2, THEN conjunct2, THEN conjunct1]
  note D = fetch_retry_policy[where rm = flakyRemote and p = "readyPlugin library_2026 []"
      and h = demoHost and hf = "''Music Library/History''" and ?p1.0 = "readyPlugin library_2026 []"
      and W = 1767225600 and ?d1.0 = "?d 1767312001" and ?d2.0 = "?d 1767312002"
      and ?d3.0 = "?d 1767312003",
      THEN conjunct2, THEN conjunct2, THEN conjunct2, THEN conjunct2, THEN conjunct2, THEN conjunct2]
  have r1: "fetchLoop failingRemote None 1 1 0 [] 0 []
       = fetchLoop failingRemote None 1 1 (0 + 1) [] (0 + 1) ([] @ [Request 1 None, Sleep (backoff (Some 500))])"
    using A a1 t by simp
  have r2: "syncTracks demoHost failingRemote (readyPlugin library_2005 [])
       = (SyncFailed (Some 500), (readyPlugin library_2005 [])\<lparr>journal := journal (readyPlugin library_2005 [])
            @ [Request 1 None, Sleep 5000, Request 1 None, Sleep 5000, Request 1 None]\<rparr>)"
    using A' c5 s5 f5 by simp
  have r3: "fetchLoop failingRemote None 1 1 2 [] 2 [] = (Aborted (Some 500), [] @ [Request 1 None])"
    using B a1 by simp
  have r4: "fetchLoop errorRemote None 1 1 0 [] 0 [] = (Aborted None, [] @ [Request 1 None])"
    using C e1 e2 by simp
  have r5: "syncTracks demoHost flakyRemote (readyPlugin library_2026 [])
           = storeRun demoHost ((readyPlugin library_2026 [])\<lparr>journal := journal (readyPlugin library_2026 []) @
               [Request 1 (Some (1767225600 + 1)), Sleep 2000, Request 2 (Some (1767225600 + 1)), Sleep 30000,
                Request 2 (Some (1767225600 + 1)), Sleep 30000, Request 2 (Some (1767225600 + 1)), Sleep 2000,
                Request 3 (Some (1767225600 + 1))]\<rparr>) 1767225600
               (track (?d 1767312001) @ track (?d 1767312002) @ track (?d 1767312003))"
    using D c6 s6 w6 b n by simp
  have j: "(readyPlugin v [])\<lparr>journal := journal (readyPlugin v []) @ jr\<rparr> = readyPlugin v jr" for v jr
    by (simp add: readyPlugin_def)
  have r6: "syncTracks demoHost flakyRemote (readyPlugin library_2026 [])
       = (Summary 3 3 0 1,
          readyPlugin (library_2026
            (''Music Library/Artist - Song.md'' \<mapsto>
               TFile (songRecord 4 ''2026-01-01T00:00:00'' ''2026-01-02T00:00:03''),
             ''Music Library/History/History-2026.md'' \<mapsto>
               TFile (historyLog [songEntry ''2026-01-02T00:00:03'', songEntry ''2026-01-02T00:00:02'',
                  songEntry ''2026-01-02T00:00:01'', songEntry ''2026-01-01T00:00:00''])))
            [Request 1 (Some (1767225600 + 1)), Sleep 2000, Request 2 (Some (1767225600 + 1)),
             Sleep 30000, Request 2 (Some (1767225600 + 1)), Sleep 30000,
             Request 2 (Some (1767225600 + 1)), Sleep 2000, Request 3 (Some (1767225600 + 1))])"
    unfolding r5 j using store_three by simp
  show ?thesis
    using a1 t e1 f b(2,3) r1 r2[unfolded j] r3 r4 r6 library_2026_watermark by blast
qed

end
